theory Spec2Isabelle
  imports Main "HOL-Library.Sublist"
begin

section \<open>Data model of the workflow store\<close>

text \<open>
  A JavaScript string is a sequence of UTF-16 code units; \<open>length\<close>, \<open>trim\<close>, \<open>includes\<close>
  and the regular expression class \<open>\s\<close> all work on code units. A string is therefore
  modelled as the list of its code units, and an ASCII literal of the source is written
  with \<open>js\<close>.
\<close>

type_synonym jsstring = "nat list"

definition js :: "string \<Rightarrow> jsstring" where
  "js cs = map of_char cs"

record citation =
  title :: jsstring
  uri :: jsstring

record Character =
  name :: jsstring
  profession :: jsstring
  background :: jsstring

record Prompts =
  step1 :: jsstring
  step2 :: jsstring
  step2Add :: jsstring
  step3 :: jsstring
  step4 :: jsstring
  step4Extend :: jsstring
  step5 :: jsstring
  step4System :: jsstring
  step5System :: jsstring

text \<open>
  The state fields of \<open>AppState\<close> (store/useAppStore), in the order of the store's
  initialiser. \<open>loading\<close> is a \<open>Record<number, boolean>\<close>: a partial map from step
  numbers to flags. The setter and action members of the interface are the functions
  defined below.
\<close>

record AppState =
  step :: int
  loading :: "int \<rightharpoonup> bool"
  preparingStep :: "int option"
  error :: "jsstring option"
  topic :: jsstring
  isTopicConfirmed :: bool
  researchData :: jsstring
  supplementalResearchQuery :: jsstring
  citations :: "citation list"
  characters :: "Character list"
  meetingTranscript :: jsstring
  finalArticle :: jsstring
  prompts :: Prompts

section \<open>Store actions\<close>

text \<open>
  Every setter takes an \<open>Updater<T>\<close>, a value or a function of the previous value.
  The functional form is the general one (a value \<open>v\<close> is the updater \<open>\<lambda>_. v\<close>).
\<close>

definition setStep :: "(int \<Rightarrow> int) \<Rightarrow> AppState \<Rightarrow> AppState" where
  "setStep f state = state\<lparr>step := f (step state)\<rparr>"

definition setLoading :: "((int \<rightharpoonup> bool) \<Rightarrow> (int \<rightharpoonup> bool)) \<Rightarrow> AppState \<Rightarrow> AppState" where
  "setLoading f state = state\<lparr>loading := f (loading state)\<rparr>"

definition setPreparingStep :: "(int option \<Rightarrow> int option) \<Rightarrow> AppState \<Rightarrow> AppState" where
  "setPreparingStep f state = state\<lparr>preparingStep := f (preparingStep state)\<rparr>"

definition setError :: "(jsstring option \<Rightarrow> jsstring option) \<Rightarrow> AppState \<Rightarrow> AppState" where
  "setError f state = state\<lparr>error := f (error state)\<rparr>"

definition setTopic :: "(jsstring \<Rightarrow> jsstring) \<Rightarrow> AppState \<Rightarrow> AppState" where
  "setTopic f state = state\<lparr>topic := f (topic state)\<rparr>"

definition confirmTopic :: "AppState \<Rightarrow> AppState" where
  "confirmTopic state = state\<lparr>isTopicConfirmed := True\<rparr>"

definition setResearchData :: "(jsstring \<Rightarrow> jsstring) \<Rightarrow> AppState \<Rightarrow> AppState" where
  "setResearchData f state = state\<lparr>researchData := f (researchData state)\<rparr>"

definition setSupplementalResearchQuery :: "(jsstring \<Rightarrow> jsstring) \<Rightarrow> AppState \<Rightarrow> AppState" where
  "setSupplementalResearchQuery f state =
     state\<lparr>supplementalResearchQuery := f (supplementalResearchQuery state)\<rparr>"

definition setCitations :: "(citation list \<Rightarrow> citation list) \<Rightarrow> AppState \<Rightarrow> AppState" where
  "setCitations f state = state\<lparr>citations := f (citations state)\<rparr>"

definition setCharacters :: "(Character list \<Rightarrow> Character list) \<Rightarrow> AppState \<Rightarrow> AppState" where
  "setCharacters f state = state\<lparr>characters := f (characters state)\<rparr>"

definition addCharacter :: "Character \<Rightarrow> AppState \<Rightarrow> AppState" where
  "addCharacter character state = state\<lparr>characters := characters state @ [character]\<rparr>"

text \<open>\<open>characters.filter((_, i) => i !== indexToDelete)\<close>.\<close>

definition deleteCharacter :: "nat \<Rightarrow> AppState \<Rightarrow> AppState" where
  "deleteCharacter indexToDelete state =
     state\<lparr>characters :=
       map fst (filter (\<lambda>(c, i). i \<noteq> indexToDelete)
         (zip (characters state) [0 ..< length (characters state)]))\<rparr>"

definition setMeetingTranscript :: "(jsstring \<Rightarrow> jsstring) \<Rightarrow> AppState \<Rightarrow> AppState" where
  "setMeetingTranscript f state = state\<lparr>meetingTranscript := f (meetingTranscript state)\<rparr>"

definition setFinalArticle :: "(jsstring \<Rightarrow> jsstring) \<Rightarrow> AppState \<Rightarrow> AppState" where
  "setFinalArticle f state = state\<lparr>finalArticle := f (finalArticle state)\<rparr>"

definition setPrompts :: "(Prompts \<Rightarrow> Prompts) \<Rightarrow> AppState \<Rightarrow> AppState" where
  "setPrompts f state = state\<lparr>prompts := f (prompts state)\<rparr>"

text \<open>
  The loop \<open>for (let i = fromStep; i <= 5; i++) delete newLoading[i]\<close> of
  \<open>resetStepsFrom\<close>.
\<close>

function deleteLoadingFrom :: "int \<Rightarrow> (int \<rightharpoonup> bool) \<Rightarrow> (int \<rightharpoonup> bool)" where
  "deleteLoadingFrom i newLoading =
     (if i \<le> 5 then deleteLoadingFrom (i + 1) (newLoading(i := None)) else newLoading)"
  by pat_completeness auto
termination
  by (relation "measure (\<lambda>(i, newLoading). nat (6 - i))") auto

declare deleteLoadingFrom.simps [simp del]

text \<open>
  \<open>resetStepsFrom\<close> builds a partial state and the store merges it into the current
  one: a field the partial state does not name keeps its value.
\<close>

definition resetStepsFrom :: "int \<Rightarrow> AppState \<Rightarrow> AppState" where
  "resetStepsFrom fromStep state =
     (let s1 = (if fromStep \<le> 1 then state\<lparr>topic := [], isTopicConfirmed := False\<rparr> else state);
          s2 = (if fromStep \<le> 2
                then s1\<lparr>researchData := [], supplementalResearchQuery := [], citations := []\<rparr>
                else s1);
          s3 = (if fromStep \<le> 3 then s2\<lparr>characters := []\<rparr> else s2);
          s4 = (if fromStep \<le> 4 then s3\<lparr>meetingTranscript := []\<rparr> else s3);
          s5 = (if fromStep \<le> 5 then s4\<lparr>finalArticle := []\<rparr> else s4);
          newLoading = deleteLoadingFrom fromStep (loading state)
      in s5\<lparr>loading := newLoading, error := None\<rparr>)"

text \<open>\<open>appendToResearch\<close>: the citation loop pushes a citation whose uri is not yet there.\<close>

fun pushNewCitations :: "citation list \<Rightarrow> citation list \<Rightarrow> citation list" where
  "pushNewCitations merged [] = merged"
| "pushNewCitations merged (c # cs) =
     pushNewCitations
       (if list_ex (\<lambda>mc. uri mc = uri c) merged then merged else merged @ [c]) cs"

definition appendToResearch :: "jsstring \<Rightarrow> citation list \<Rightarrow> AppState \<Rightarrow> AppState" where
  "appendToResearch newResearch newCitations state =
     state\<lparr>researchData := researchData state @ newResearch,
           citations := pushNewCitations (citations state) newCitations\<rparr>"

subsection \<open>Default prompts and full reset\<close>

text \<open>The nine default prompt templates (\<open>DEFAULT_PROMPTS\<close>), as code units.\<close>

definition DEFAULT_step1 :: jsstring where
  "DEFAULT_step1 = [
  0x8ACB, 0x4EE5, 0x7E41, 0x9AD4, 0x4E2D, 0x6587, 0xFF0C, 0x751F, 0x6210, 0x4E00, 0x500B,
   0x8352, 0x8B2C, 0x4F46, 0x5F15, 0x4EBA, 0x6DF1, 0x601D, 0x7684, 0x9577, 0x7BC7, 0x6587,
   0x7AE0, 0x4E3B, 0x984C, 0xFF0C, 0x7D50, 0x5408, 0x5169, 0x500B, 0x5B8C, 0x5168, 0x7121,
   0x95DC, 0x7684, 0x6982, 0x5FF5, 0x3002, 0x4F8B, 0x5982, 0xFF1A, 0x300C, 0x706B, 0x5F71,
   0x5FCD, 0x8005, 0x7684, 0x6558, 0x4E8B, 0x7D50, 0x69CB, 0x8207, 0x65E5, 0x672C, 0x7576,
   0x4EE3, 0x793E, 0x6703, 0x5275, 0x50B7, 0x7684, 0x76F8, 0x4F3C, 0x4E4B, 0x8655, 0x300D,
   0x6216, 0x300C, 0x85DD, 0x4EBA, 0x8C6C, 0x54E5, 0x4EAE, 0x8207, 0x53F0, 0x7A4D, 0x96FB,
   0x80A1, 0x50F9, 0x8868, 0x73FE, 0x4E4B, 0x9593, 0x7684, 0x795E, 0x79D8, 0x95DC, 0x806F,
   0x300D, 0x3002, 0x8ACB, 0x53EA, 0x63D0, 0x4F9B, 0x4E3B, 0x984C, 0x5B57, 0x4E32, 0xFF0C,
   0x4E0D, 0x8981, 0x52A0, 0x4E0A, 0x4EFB, 0x4F55, 0x5F15, 0x865F, 0x6216, 0x6A19, 0x7C64,
   0x3002]"

definition DEFAULT_step2 :: jsstring where
  "DEFAULT_step2 = [
  0x91DD, 0x5C0D, 0x4E3B, 0x984C, 0x300C, 0x7B, 0x7B, 0x74, 0x6F, 0x70, 0x69, 0x63, 0x7D, 0x7D,
   0x300D, 0xFF0C, 0x8ACB, 0x9032, 0x884C, 0x6DF1, 0x5165, 0x7684, 0x7DB2, 0x8DEF, 0x641C,
   0x5C0B, 0xFF0C, 0x4EE5, 0x7E41, 0x9AD4, 0x4E2D, 0x6587, 0x6536, 0x96C6, 0x5176, 0x6838,
   0x5FC3, 0x6982, 0x5FF5, 0x7684, 0x8A73, 0x7D30, 0x8CC7, 0x8A0A, 0x3002, 0x8ACB, 0x5C07,
   0x4E3B, 0x984C, 0x62C6, 0x89E3, 0x70BA, 0x591A, 0x500B, 0x95DC, 0x9375, 0x5B57, 0xFF08,
   0x4F8B, 0x5982, 0xFF0C, 0x82E5, 0x4E3B, 0x984C, 0x70BA, 0x300C, 0x706B, 0x5F71, 0x5FCD,
   0x8005, 0x8207, 0x65E5, 0x672C, 0x793E, 0x6703, 0x5275, 0x50B7, 0x300D, 0xFF0C, 0x8ACB,
   0x641C, 0x5C0B, 0x300C, 0x706B, 0x5F71, 0x5FCD, 0x8005, 0x5287, 0x60C5, 0x5927, 0x7DB1,
   0x300D, 0x3001, 0x300C, 0x706B, 0x5F71, 0x5FCD, 0x8005, 0x6838, 0x5FC3, 0x4E3B, 0x984C,
   0x300D, 0x3001, 0x300C, 0x7576, 0x4EE3, 0x65E5, 0x672C, 0x793E, 0x6703, 0x300D, 0x3001,
   0x300C, 0x73FE, 0x4EE3, 0x65E5, 0x672C, 0x7684, 0x793E, 0x6703, 0x554F, 0x984C, 0x300D,
   0x3001, 0x300C, 0x65E5, 0x672C, 0x793E, 0x6703, 0x5275, 0x50B7, 0x7684, 0x6210, 0x56E0,
   0x300D, 0x7B49, 0xFF09, 0xFF0C, 0x7136, 0x5F8C, 0x5C07, 0x641C, 0x5C0B, 0x7D50, 0x679C,
   0x6574, 0x5408, 0x6210, 0x4E00, 0x4EFD, 0x7D50, 0x69CB, 0x6E05, 0x6670, 0x3001, 0x5167,
   0x5BB9, 0x8A73, 0x76E1, 0x7684, 0x7814, 0x7A76, 0x7C21, 0x5831, 0x3002, 0x8ACB, 0x76E1,
   0x53EF, 0x80FD, 0x63D0, 0x4F9B, 0x8C50, 0x5BCC, 0x4E14, 0x8A73, 0x7D30, 0x7684, 0x8CC7,
   0x8A0A, 0xFF0C, 0x4E26, 0x4F7F, 0x7528, 0x20, 0x6D, 0x61, 0x72, 0x6B, 0x64, 0x6F, 0x77,
   0x6E, 0x20, 0x683C, 0x5F0F, 0x5316, 0x6587, 0x672C, 0x3002]"

definition DEFAULT_step2Add :: jsstring where
  "DEFAULT_step2Add = [
  0x8ACB, 0x6839, 0x64DA, 0x4EE5, 0x4E0B, 0x73FE, 0x6709, 0x7814, 0x7A76, 0x8CC7, 0x6599,
   0xFF1A, 0xA, 0x7B, 0x7B, 0x72, 0x65, 0x73, 0x65, 0x61, 0x72, 0x63, 0x68, 0x44, 0x61, 0x74,
   0x61, 0x7D, 0x7D, 0xA, 0xA, 0x91DD, 0x5C0D, 0x4E3B, 0x984C, 0x300C, 0x7B, 0x7B, 0x74, 0x6F,
   0x70, 0x69, 0x63, 0x7D, 0x7D, 0x300D, 0xFF0C, 0x88DC, 0x5145, 0x641C, 0x5C0B, 0x4E26,
   0x63D0, 0x4F9B, 0x95DC, 0x65BC, 0x300C, 0x7B, 0x7B, 0x73, 0x75, 0x70, 0x70, 0x6C, 0x65,
   0x6D, 0x65, 0x6E, 0x74, 0x61, 0x6C, 0x51, 0x75, 0x65, 0x72, 0x79, 0x7D, 0x7D, 0x300D,
   0x7684, 0x8A73, 0x7D30, 0x8CC7, 0x8A0A, 0x3002, 0x5C07, 0x88DC, 0x5145, 0x8CC7, 0x6599,
   0x4EE5, 0x7D50, 0x69CB, 0x6E05, 0x6670, 0x3001, 0x5167, 0x5BB9, 0x8A73, 0x76E1, 0x7684,
   0x6D, 0x61, 0x72, 0x6B, 0x64, 0x6F, 0x77, 0x6E, 0x683C, 0x5F0F, 0x6587, 0x672C, 0x8F38,
   0x51FA, 0xFF0C, 0x4E26, 0x6574, 0x5408, 0x5230, 0x539F, 0x6709, 0x8CC7, 0x6599, 0x5F8C,
   0x65B9, 0xFF0C, 0x4F46, 0x4E0D, 0x8981, 0x91CD, 0x8907, 0x5DF2, 0x6709, 0x7684, 0x8CC7,
   0x8A0A, 0x3002]"

definition DEFAULT_step3 :: jsstring where
  "DEFAULT_step3 = [
  0x6839, 0x64DA, 0x4E3B, 0x984C, 0x300C, 0x7B, 0x7B, 0x74, 0x6F, 0x70, 0x69, 0x63, 0x7D, 0x7D,
   0x300D, 0x53CA, 0x4EE5, 0x4E0B, 0x7814, 0x7A76, 0x8CC7, 0x6599, 0xFF1A, 0x300C, 0x7B, 0x7B,
   0x72, 0x65, 0x73, 0x65, 0x61, 0x72, 0x63, 0x68, 0x44, 0x61, 0x74, 0x61, 0x7D, 0x7D, 0x300D,
   0xFF0C, 0x8ACB, 0x4EE5, 0x7E41, 0x9AD4, 0x4E2D, 0x6587, 0x5275, 0x5EFA, 0x4E00, 0x500B,
   0x7531, 0x36, 0x4F4D, 0x865B, 0x69CB, 0x5C08, 0x5BB6, 0x7D44, 0x6210, 0x7684, 0x591A,
   0x5143, 0x5316, 0x6703, 0x8B70, 0x5C0F, 0x7D44, 0x3002, 0x6BCF, 0x4F4D, 0x5C08, 0x5BB6,
   0x90FD, 0x5FC5, 0x9808, 0x6709, 0x7368, 0x7279, 0x7684, 0x4E2D, 0x6587, 0x59D3, 0x540D,
   0x3001, 0x5177, 0x9AD4, 0x7684, 0x8077, 0x696D, 0xFF0C, 0x4EE5, 0x53CA, 0x8207, 0x4E3B,
   0x984C, 0x67D0, 0x4E00, 0x9762, 0x5411, 0x76F8, 0x95DC, 0x7684, 0x8A73, 0x7D30, 0x80CC,
   0x666F, 0x3002, 0x9019, 0x500B, 0x5718, 0x968A, 0x7684, 0x8A2D, 0x8A08, 0x61C9, 0x80FD,
   0x4FC3, 0x9032, 0x8FAF, 0x8AD6, 0xFF0C, 0x6210, 0x54E1, 0x9593, 0x53EF, 0x80FD, 0x6301,
   0x6709, 0x885D, 0x7A81, 0x4F46, 0x7686, 0x5408, 0x7406, 0x7684, 0x89C0, 0x9EDE, 0xFF0C,
   0x4EE5, 0x78BA, 0x4FDD, 0x5C0D, 0x4E3B, 0x984C, 0x9032, 0x884C, 0x5168, 0x9762, 0x4E14,
   0x591A, 0x89D2, 0x5EA6, 0x7684, 0x5206, 0x6790, 0x3002, 0x4F8B, 0x5982, 0xFF0C, 0x82E5,
   0x4E3B, 0x984C, 0x662F, 0x95DC, 0x65BC, 0x706B, 0x5F71, 0x5FCD, 0x8005, 0x548C, 0x793E,
   0x6703, 0x5275, 0x50B7, 0xFF0C, 0x5718, 0x968A, 0x53EF, 0x5305, 0x542B, 0x4E00, 0x4F4D,
   0x5C08, 0x653B, 0x65E5, 0x672C, 0x6D41, 0x884C, 0x6587, 0x5316, 0x7684, 0x793E, 0x6703,
   0x5B78, 0x5BB6, 0x3001, 0x4E00, 0x4F4D, 0x81E8, 0x5E8A, 0x5FC3, 0x7406, 0x5B78, 0x5BB6,
   0x3001, 0x4E00, 0x4F4D, 0x6587, 0x5B78, 0x8A55, 0x8AD6, 0x5BB6, 0x548C, 0x4E00, 0x4F4D,
   0x7D93, 0x6FDF, 0x5B78, 0x5BB6, 0x3002, 0x8ACB, 0x78BA, 0x4FDD, 0x4ED6, 0x5011, 0x7684,
   0x500B, 0x6027, 0x548C, 0x5C08, 0x696D, 0x80FD, 0x5F62, 0x6210, 0x6709, 0x6548, 0x7684,
   0x5236, 0x8861, 0x8207, 0x6FC0, 0x76EA, 0x3002]"

definition DEFAULT_step4 :: jsstring where
  "DEFAULT_step4 = [
  0x4E3B, 0x984C, 0xFF1A, 0x7B, 0x7B, 0x74, 0x6F, 0x70, 0x69, 0x63, 0x7D, 0x7D, 0xA, 0xA,
   0x7814, 0x7A76, 0x7C21, 0x5831, 0xFF1A, 0xA, 0x7B, 0x7B, 0x72, 0x65, 0x73, 0x65, 0x61, 0x72,
   0x63, 0x68, 0x44, 0x61, 0x74, 0x61, 0x7D, 0x7D, 0xA, 0xA, 0x8207, 0x6703, 0x8005, 0xFF1A,
   0xA, 0x7B, 0x7B, 0x63, 0x68, 0x61, 0x72, 0x61, 0x63, 0x74, 0x65, 0x72, 0x50, 0x72, 0x6F,
   0x66, 0x69, 0x6C, 0x65, 0x73, 0x7D, 0x7D, 0xA, 0xA, 0x4F60, 0x7684, 0x4EFB, 0x52D9, 0x662F,
   0x6A21, 0x64EC, 0x4E00, 0x5834, 0x5728, 0x9019, 0x4E9B, 0x5C08, 0x5BB6, 0x4E4B, 0x9593,
   0x9032, 0x884C, 0x7684, 0x3001, 0x9577, 0x7BC7, 0x4E14, 0x8A73, 0x7D30, 0x7684, 0x8FAF,
   0x8AD6, 0x6703, 0x7684, 0x5B8C, 0x6574, 0x9010, 0x5B57, 0x7A3F, 0x3002, 0x9019, 0x5834,
   0x8A0E, 0x8AD6, 0x7684, 0x76EE, 0x6A19, 0x662F, 0x70BA, 0x4E00, 0x7BC7, 0x95DC, 0x65BC,
   0x6B64, 0x4E3B, 0x984C, 0x7684, 0x9577, 0x7BC7, 0x6587, 0x7AE0, 0x64EC, 0x5B9A, 0x5927,
   0x7DB1, 0x3002, 0x4ED6, 0x5011, 0x61C9, 0x8A72, 0x6DB5, 0x84CB, 0x6587, 0x7AE0, 0x7684,
   0x53EF, 0x80FD, 0x7D50, 0x69CB, 0x3001, 0x6838, 0x5FC3, 0x8AD6, 0x9EDE, 0x3001, 0x6240,
   0x9700, 0x6578, 0x64DA, 0x548C, 0x53CD, 0x65B9, 0x8AD6, 0x9EDE, 0x3002, 0x6BCF, 0x4F4D,
   0x5C08, 0x5BB6, 0x90FD, 0x5FC5, 0x9808, 0x5F9E, 0x81EA, 0x8EAB, 0x7684, 0x5C08, 0x696D,
   0x89D2, 0x5EA6, 0x767C, 0x8A00, 0x3002, 0x76EE, 0x6A19, 0x662F, 0x5728, 0x9054, 0x6210,
   0x5927, 0x81F4, 0x5171, 0x8B58, 0x524D, 0xFF0C, 0x5C0D, 0x4E3B, 0x984C, 0x9032, 0x884C,
   0x6DF1, 0x5165, 0x7684, 0x63A2, 0x8A0E, 0x3002, 0x8ACB, 0x4EE5, 0x6703, 0x8B70, 0x8A18,
   0x9304, 0x7684, 0x5F62, 0x5F0F, 0x8F38, 0x51FA, 0xFF0C, 0x6BCF, 0x4E00, 0x884C, 0x90FD,
   0x4EE5, 0x89D2, 0x8272, 0x540D, 0x7A31, 0x958B, 0x982D, 0xFF0C, 0x5F8C, 0x63A5, 0x5192,
   0x865F, 0x548C, 0x5176, 0x767C, 0x8A00, 0x5167, 0x5BB9, 0x3002, 0x8ACB, 0x78BA, 0x4FDD,
   0x8A0E, 0x8AD6, 0x5167, 0x5BB9, 0x5145, 0x5BE6, 0xFF0C, 0x6BCF, 0x4F4D, 0x89D2, 0x8272,
   0x90FD, 0x6709, 0x591A, 0x6B21, 0x767C, 0x8A00, 0x6A5F, 0x6703, 0xFF0C, 0x4E26, 0x5168,
   0x7A0B, 0x4F7F, 0x7528, 0x7E41, 0x9AD4, 0x4E2D, 0x6587, 0x3002]"

definition DEFAULT_step4Extend :: jsstring where
  "DEFAULT_step4Extend = [
  0x76EE, 0x524D, 0x70BA, 0x6B62, 0x7684, 0x8A0E, 0x8AD6, 0x7D00, 0x9304, 0xFF1A, 0xA, 0x7B,
   0x7B, 0x65, 0x78, 0x69, 0x73, 0x74, 0x69, 0x6E, 0x67, 0x54, 0x72, 0x61, 0x6E, 0x73, 0x63,
   0x72, 0x69, 0x70, 0x74, 0x7D, 0x7D, 0xA, 0xA, 0x4E3B, 0x984C, 0xFF1A, 0x7B, 0x7B, 0x74,
   0x6F, 0x70, 0x69, 0x63, 0x7D, 0x7D, 0xA, 0xA, 0x7814, 0x7A76, 0x7C21, 0x5831, 0xFF1A, 0xA,
   0x7B, 0x7B, 0x72, 0x65, 0x73, 0x65, 0x61, 0x72, 0x63, 0x68, 0x44, 0x61, 0x74, 0x61, 0x7D,
   0x7D, 0xA, 0xA, 0x8207, 0x6703, 0x8005, 0xFF1A, 0xA, 0x7B, 0x7B, 0x63, 0x68, 0x61, 0x72,
   0x61, 0x63, 0x74, 0x65, 0x72, 0x50, 0x72, 0x6F, 0x66, 0x69, 0x6C, 0x65, 0x73, 0x7D, 0x7D,
   0xA, 0xA, 0x4F60, 0x7684, 0x4EFB, 0x52D9, 0x662F, 0x63A5, 0x7E8C, 0x9019, 0x5834, 0x8FAF,
   0x8AD6, 0x3002, 0x5BA2, 0x6236, 0x8A8D, 0x70BA, 0x5148, 0x524D, 0x7684, 0x8A0E, 0x8AD6,
   0x4E0D, 0x5920, 0x6DF1, 0x5165, 0x3002, 0x8ACB, 0x5F15, 0x5165, 0x65B0, 0x7684, 0x89C0,
   0x9EDE, 0x3001, 0x6311, 0x6230, 0x73FE, 0x6709, 0x7684, 0x5047, 0x8A2D, 0xFF0C, 0x6216,
   0x63A2, 0x8A0E, 0x4E00, 0x500B, 0x88AB, 0x5FFD, 0x7565, 0x7684, 0x5207, 0x5165, 0x9EDE,
   0x3002, 0x751F, 0x6210, 0x4E00, 0x6BB5, 0x5BE6, 0x8CEA, 0x6027, 0x7684, 0x65B0, 0x5C0D,
   0x8A71, 0x7D00, 0x9304, 0xFF0C, 0x70BA, 0x8A0E, 0x8AD6, 0x589E, 0x6DFB, 0x66F4, 0x591A,
   0x50F9, 0x503C, 0x8207, 0x6DF1, 0x5EA6, 0x3002, 0x4E0D, 0x8981, 0x91CD, 0x8907, 0x5148,
   0x524D, 0x7684, 0x8AD6, 0x9EDE, 0x3002, 0x76F4, 0x63A5, 0x5F9E, 0x4E0B, 0x4E00, 0x4F4D,
   0x767C, 0x8A00, 0x8005, 0x7684, 0x5C0D, 0x8A71, 0x958B, 0x59CB, 0x3002, 0x5168, 0x7A0B,
   0x4F7F, 0x7528, 0x7E41, 0x9AD4, 0x4E2D, 0x6587, 0x3002]"

definition DEFAULT_step5 :: jsstring where
  "DEFAULT_step5 = [
  0x4F60, 0x7684, 0x4EFB, 0x52D9, 0x662F, 0x6839, 0x64DA, 0x4EE5, 0x4E0B, 0x8CC7, 0x6599,
   0xFF0C, 0x64B0, 0x5BEB, 0x4E00, 0x7BC7, 0x81F3, 0x5C11, 0x35, 0x30, 0x30, 0x30, 0x5B57,
   0x7684, 0x5168, 0x9762, 0x3001, 0x6DF1, 0x5165, 0x7684, 0x7E41, 0x9AD4, 0x4E2D, 0x6587,
   0x6587, 0x7AE0, 0x3002, 0x8ACB, 0x5229, 0x7528, 0x63D0, 0x4F9B, 0x7684, 0x7814, 0x7A76,
   0x7C21, 0x5831, 0x4F5C, 0x70BA, 0x4E8B, 0x5BE6, 0x57FA, 0x790E, 0xFF0C, 0x4E26, 0x53C3,
   0x8003, 0x6703, 0x8B70, 0x7D00, 0x9304, 0x4F86, 0x5EFA, 0x69CB, 0x6838, 0x5FC3, 0x8AD6,
   0x9EDE, 0x3001, 0x6587, 0x7AE0, 0x67B6, 0x69CB, 0x548C, 0x591A, 0x5143, 0x89C0, 0x9EDE,
   0x3002, 0x6700, 0x7D42, 0x7684, 0x6587, 0x7AE0, 0x5FC5, 0x9808, 0x7D50, 0x69CB, 0x6E05,
   0x6670, 0xFF08, 0x4F7F, 0x7528, 0x20, 0x6D, 0x61, 0x72, 0x6B, 0x64, 0x6F, 0x77, 0x6E, 0x20,
   0x6A19, 0x984C, 0xFF09, 0x3001, 0x689D, 0x7406, 0x5206, 0x660E, 0xFF0C, 0x4E26, 0x5C07,
   0x5C08, 0x5BB6, 0x5011, 0x8FAF, 0x8AD6, 0x7684, 0x60F3, 0x6CD5, 0x7121, 0x7E2B, 0x5730,
   0x6574, 0x5408, 0x5728, 0x4E00, 0x8D77, 0x3002, 0x8ACB, 0x4E0D, 0x8981, 0x53EA, 0x662F,
   0x7E3D, 0x7D50, 0x6703, 0x8B70, 0x7D00, 0x9304, 0xFF0C, 0x800C, 0x662F, 0x8981, 0x5C07,
   0x5176, 0x5408, 0x6210, 0x70BA, 0x4E00, 0x7BC7, 0x5168, 0x65B0, 0x3001, 0x5177, 0x6B0A,
   0x5A01, 0x6027, 0x7684, 0x6587, 0x7AE0, 0x3002, 0xA, 0xA, 0x4E3B, 0x984C, 0xFF1A, 0x7B,
   0x7B, 0x74, 0x6F, 0x70, 0x69, 0x63, 0x7D, 0x7D, 0xA, 0xA, 0x7814, 0x7A76, 0x7C21, 0x5831,
   0xFF1A, 0xA, 0x7B, 0x7B, 0x72, 0x65, 0x73, 0x65, 0x61, 0x72, 0x63, 0x68, 0x44, 0x61, 0x74,
   0x61, 0x7D, 0x7D, 0xA, 0xA, 0x6703, 0x8B70, 0x7D00, 0x9304, 0xFF1A, 0xA, 0x7B, 0x7B, 0x74,
   0x72, 0x61, 0x6E, 0x73, 0x63, 0x72, 0x69, 0x70, 0x74, 0x7D, 0x7D, 0xA, 0xA, 0x73FE, 0x5728,
   0xFF0C, 0x8ACB, 0x958B, 0x59CB, 0x64B0, 0x5BEB, 0x9019, 0x7BC7, 0x8A73, 0x7D30, 0x7684,
   0x6700, 0x7D42, 0x6587, 0x7AE0, 0x3002]"

definition DEFAULT_step4System :: jsstring where
  "DEFAULT_step4System = [
  0x4F60, 0x662F, 0x4E00, 0x4F4D, 0x5C08, 0x696D, 0x7684, 0x6703, 0x8B70, 0x4E3B, 0x6301,
   0x4EBA, 0x3002, 0x4F60, 0x7684, 0x4EFB, 0x52D9, 0x662F, 0x6A21, 0x64EC, 0x4E00, 0x5834,
   0x5C08, 0x5BB6, 0x9593, 0x7684, 0x5C0D, 0x8A71, 0x3002, 0x6BCF, 0x4F4D, 0x5C08, 0x5BB6,
   0x90FD, 0x5FC5, 0x9808, 0x6839, 0x64DA, 0x5176, 0x80CC, 0x666F, 0x63CF, 0x8FF0, 0xFF0C,
   0x5F9E, 0x81EA, 0x5DF1, 0x7684, 0x5C08, 0x696D, 0x89D2, 0x5EA6, 0x9032, 0x884C, 0x8AD6,
   0x8B49, 0x3002, 0x4ED6, 0x5011, 0x5FC5, 0x9808, 0x57FA, 0x65BC, 0x4ED6, 0x4EBA, 0x7684,
   0x89C0, 0x9EDE, 0x9032, 0x884C, 0x5EF6, 0x4F38, 0x3001, 0x6279, 0x5224, 0x548C, 0x6311,
   0x6230, 0xFF0C, 0x4E26, 0x4F7F, 0x7528, 0x7E41, 0x9AD4, 0x4E2D, 0x6587, 0x9032, 0x884C,
   0x4EA4, 0x6D41, 0x3002]"

definition DEFAULT_step5System :: jsstring where
  "DEFAULT_step5System = [
  0x4F60, 0x662F, 0x4E00, 0x4F4D, 0x5C08, 0x696D, 0x7684, 0x9577, 0x6587, 0x4F5C, 0x5BB6,
   0x3002, 0x4F60, 0x7684, 0x4EFB, 0x52D9, 0x662F, 0x5C07, 0x4E00, 0x5834, 0x8907, 0x96DC,
   0x7684, 0x8A0E, 0x8AD6, 0xFF0C, 0x5408, 0x6210, 0x70BA, 0x4E00, 0x7BC7, 0x689D, 0x7406,
   0x6E05, 0x6670, 0x3001, 0x7D50, 0x69CB, 0x56B4, 0x8B39, 0x4E14, 0x898B, 0x89E3, 0x6DF1,
   0x523B, 0x7684, 0x7E41, 0x9AD4, 0x4E2D, 0x6587, 0x6587, 0x7AE0, 0x3002, 0x4F60, 0x5FC5,
   0x9808, 0x4FDD, 0x6301, 0x4E2D, 0x7ACB, 0xFF0C, 0x6E96, 0x78BA, 0x5730, 0x5448, 0x73FE,
   0x5404, 0x4F4D, 0x5C08, 0x5BB6, 0x7684, 0x89C0, 0x9EDE, 0xFF0C, 0x540C, 0x6642, 0x5275,
   0x9020, 0x51FA, 0x5F15, 0x4EBA, 0x5165, 0x52DD, 0x7684, 0x6558, 0x4E8B, 0x3002]"

definition DEFAULT_PROMPTS :: Prompts where
  "DEFAULT_PROMPTS =
     \<lparr>step1 = DEFAULT_step1, step2 = DEFAULT_step2, step2Add = DEFAULT_step2Add,
      step3 = DEFAULT_step3, step4 = DEFAULT_step4, step4Extend = DEFAULT_step4Extend,
      step5 = DEFAULT_step5, step4System = DEFAULT_step4System,
      step5System = DEFAULT_step5System\<rparr>"

definition resetAll :: "AppState \<Rightarrow> AppState" where
  "resetAll state =
     state\<lparr>step := 1, topic := [], isTopicConfirmed := False, researchData := [],
           supplementalResearchQuery := [], citations := [], characters := [],
           meetingTranscript := [], finalArticle := [], prompts := DEFAULT_PROMPTS,
           loading := Map.empty, preparingStep := None, error := None\<rparr>"

subsection \<open>Persistence\<close>

text \<open>
  The store object handed to \<open>partialize\<close>: its entries in the order of the initialiser,
  state fields and action members alike. \<open>Object.entries\<close> lists them in that order.
\<close>

datatype store_value =
    NumberValue int
  | LoadingValue "int \<rightharpoonup> bool"
  | StepOrNullValue "int option"
  | StringOrNullValue "jsstring option"
  | StringValue jsstring
  | BooleanValue bool
  | CitationsValue "citation list"
  | CharactersValue "Character list"
  | PromptsValue Prompts
  | FunctionValue

definition storeEntries :: "AppState \<Rightarrow> (string \<times> store_value) list" where
  "storeEntries state =
     [(''step'', NumberValue (step state)), (''setStep'', FunctionValue),
      (''loading'', LoadingValue (loading state)), (''setLoading'', FunctionValue),
      (''preparingStep'', StepOrNullValue (preparingStep state)),
      (''setPreparingStep'', FunctionValue),
      (''error'', StringOrNullValue (error state)), (''setError'', FunctionValue),
      (''topic'', StringValue (topic state)), (''setTopic'', FunctionValue),
      (''isTopicConfirmed'', BooleanValue (isTopicConfirmed state)),
      (''confirmTopic'', FunctionValue),
      (''researchData'', StringValue (researchData state)), (''setResearchData'', FunctionValue),
      (''supplementalResearchQuery'', StringValue (supplementalResearchQuery state)),
      (''setSupplementalResearchQuery'', FunctionValue),
      (''citations'', CitationsValue (citations state)), (''setCitations'', FunctionValue),
      (''characters'', CharactersValue (characters state)), (''setCharacters'', FunctionValue),
      (''addCharacter'', FunctionValue), (''deleteCharacter'', FunctionValue),
      (''meetingTranscript'', StringValue (meetingTranscript state)),
      (''setMeetingTranscript'', FunctionValue),
      (''finalArticle'', StringValue (finalArticle state)), (''setFinalArticle'', FunctionValue),
      (''saveFinalArticleEdit'', FunctionValue),
      (''prompts'', PromptsValue (prompts state)), (''setPrompts'', FunctionValue),
      (''resetStepsFrom'', FunctionValue), (''resetAll'', FunctionValue),
      (''appendToResearch'', FunctionValue)]"

definition notPersisted :: "string list" where
  "notPersisted =
     [''loading'', ''preparingStep'', ''error'', ''setLoading'', ''setPreparingStep'', ''setError'',
      ''setStep'', ''setTopic'', ''confirmTopic'', ''setResearchData'',
      ''setSupplementalResearchQuery'', ''setCitations'',
      ''setCharacters'', ''addCharacter'', ''deleteCharacter'', ''setMeetingTranscript'',
      ''setFinalArticle'', ''setPrompts'',
      ''resetStepsFrom'', ''resetAll'', ''appendToResearch'', ''saveFinalArticleEdit'']"

definition partialize :: "AppState \<Rightarrow> (string \<times> store_value) list" where
  "partialize state = filter (\<lambda>(key, v). key \<notin> set notPersisted) (storeEntries state)"

text \<open>The \<open>name\<close> option of the persist middleware: the key of the record in local storage.\<close>

definition storageName :: string where
  "storageName = ''long-form-ai-generator-storage''"

section \<open>Generation service (services/geminiService)\<close>

text \<open>
  The generative API is an external collaborator. What the model keeps of it is the shape
  of what it hands back: the chunks of a streamed response, each with an optional text and
  its grounding chunks, and the way the service's stream generator turns them into yielded
  fragments and collected citations.
\<close>

record web_source =
  web_title :: "jsstring option"
  web_uri :: jsstring

record response_chunk =
  chunk_text :: "jsstring option"
  groundingChunks :: "web_source option list"

definition untitled :: jsstring where
  "untitled = [0x7121, 0x6A19, 0x984C]"

text \<open>
  \<open>extractCitations\<close>: one citation for every grounding chunk that has a \<open>web\<close> part;
  \<open>chunk.web.title || untitled\<close> replaces a missing or empty title.
\<close>

fun extractCitations_loop :: "web_source option list \<Rightarrow> citation list" where
  "extractCitations_loop [] = []"
| "extractCitations_loop (None # rest) = extractCitations_loop rest"
| "extractCitations_loop (Some web # rest) =
     \<lparr>title = (case web_title web of
                 None \<Rightarrow> untitled
               | Some t \<Rightarrow> if t = [] then untitled else t),
      uri = web_uri web\<rparr> # extractCitations_loop rest"

definition extractCitations :: "response_chunk \<Rightarrow> citation list" where
  "extractCitations response = extractCitations_loop (groundingChunks response)"

text \<open>
  \<open>streamGenerator\<close> of \<open>conductResearchStream\<close> and \<open>supplementalResearchStream\<close>: a chunk
  with a non-empty text yields it, and the chunk's citations are pushed into
  \<open>collectedCitations\<close> unless their uri is there. The result is the list of yielded
  fragments and the content of \<open>collectedCitations\<close> when the response is exhausted.
\<close>

fun streamGenerator :: "response_chunk list \<Rightarrow> citation list \<Rightarrow> jsstring list \<times> citation list" where
  "streamGenerator [] collectedCitations = ([], collectedCitations)"
| "streamGenerator (chunk # rest) collectedCitations =
     (case streamGenerator rest (pushNewCitations collectedCitations (extractCitations chunk)) of
        (yielded, final) \<Rightarrow>
          (case chunk_text chunk of
             None \<Rightarrow> (yielded, final)
           | Some t \<Rightarrow> if t = [] then (yielded, final) else (t # yielded, final)))"

text \<open>A thrown value: an \<open>Error\<close> object with its message, or any other value.\<close>

datatype thrown = ErrorObject jsstring | OtherValue

datatype stream_end = Exhausted | Throws thrown

text \<open>
  What a streaming service function resolves to: the fragments its \<open>stream\<close> yields and
  how the stream ends, the \<open>citations\<close> array and the resolved prompt. The array is the one
  the generator fills while the stream is consumed; the controller reads it only once the
  stream is exhausted, so the field holds its content at that moment.
\<close>

record stream_response =
  fragments :: "jsstring list"
  ending :: stream_end
  initialCitations :: "citation list option"
  resolvedPrompt :: "jsstring option"

datatype 'a outcome = Rejected thrown | Resolved 'a

text \<open>
  The value \<open>supplementalResearchStream\<close> resolves to, for the chunks of the API response
  and the way the response ends: the fragments its generator yields, the citations array
  as the generator leaves it, and the prompt after substitution.

  \<open>conductResearchStream\<close> builds its result the same way, but it also starts a second
  generator (\<open>finalStream\<close>) on the same response and the same array and consumes it on its
  own. Which chunks of the response reach the returned stream is then a matter of
  scheduling, so for that call the fragments and the final content of the array are taken
  as they come, as the fields of a \<open>stream_response\<close>.
\<close>

definition supplementalResearchStream ::
  "jsstring \<Rightarrow> response_chunk list \<Rightarrow> stream_end \<Rightarrow> stream_response" where
  "supplementalResearchStream fullPrompt response fin =
     \<lparr>fragments = fst (streamGenerator response []), ending = fin,
      initialCitations = Some (snd (streamGenerator response [])),
      resolvedPrompt = Some fullPrompt\<rparr>"

text \<open>The calls the controller can dispatch, with the arguments it passes.\<close>

datatype api_request =
    GenerateTopic jsstring
  | ConductResearchStream jsstring jsstring
  | SupplementalResearchStream jsstring jsstring jsstring
  | GenerateMeetingGroup jsstring jsstring jsstring
  | StartDiscussionStream jsstring jsstring "Character list" jsstring jsstring
  | ExtendDiscussionStream jsstring jsstring "Character list" jsstring jsstring jsstring
  | GenerateFinalArticleStream jsstring jsstring jsstring jsstring jsstring

text \<open>What each kind of service function does when it is called.\<close>

record env =
  topicApi :: "(jsstring \<times> jsstring option) outcome"
  groupApi :: "(Character list \<times> jsstring option) outcome"
  streamApi :: "stream_response outcome"

section \<open>Controller (App)\<close>

subsection \<open>String helpers\<close>

text \<open>
  The code units that \<open>String.prototype.trim\<close> strips and the class \<open>\s\<close> matches: the
  white space and line terminator characters of ECMAScript.
\<close>

definition isWhiteSpace :: "nat \<Rightarrow> bool" where
  "isWhiteSpace c =
     (c \<in> set [0x9, 0xA, 0xB, 0xC, 0xD, 0x20, 0xA0, 0x1680, 0x2028, 0x2029, 0x202F, 0x205F,
                0x3000, 0xFEFF]
      \<or> (0x2000 \<le> c \<and> c \<le> 0x200A))"

definition trim :: "jsstring \<Rightarrow> jsstring" where
  "trim s = rev (dropWhile isWhiteSpace (rev (dropWhile isWhiteSpace s)))"

text \<open>\<open>String.prototype.includes\<close>: the search string occurs somewhere in the string.\<close>

fun includes_js :: "jsstring \<Rightarrow> jsstring \<Rightarrow> bool" where
  "includes_js [] search = (search = [])"
| "includes_js (c # cs) search = (prefix search (c # cs) \<or> includes_js cs search)"

fun digitsOf :: "nat \<Rightarrow> jsstring" where
  "digitsOf n = (if n < 10 then [48 + n] else digitsOf (n div 10) @ [48 + n mod 10])"

declare digitsOf.simps [simp del]

text \<open>The decimal text of an integer, as a template literal inserts it.\<close>

definition numberToString :: "int \<Rightarrow> jsstring" where
  "numberToString n = (if n < 0 then 0x2D # digitsOf (nat (- n)) else digitsOf (nat n))"

subsection \<open>Error classification\<close>

definition isRateLimitError :: "thrown \<Rightarrow> bool" where
  "isRateLimitError e =
     (case e of
        ErrorObject message \<Rightarrow>
          includes_js message (js ''429'') \<or> includes_js message (js ''RESOURCE_EXHAUSTED'')
      | OtherValue \<Rightarrow> False)"

definition quotaMessage :: jsstring where
  "quotaMessage =
     [0x8ACB, 0x6C42, 0x904E, 0x65BC, 0x983B, 0x7E41, 0xFF0C, 0x5DF2, 0x8D85, 0x51FA, 0x60A8,
      0x7684, 0x76EE, 0x524D, 0x914D, 0x984D, 0x3002, 0x8ACB, 0x7A0D, 0x5019, 0x7247, 0x523B,
      0x518D, 0x8A66, 0x4E00, 0x6B21, 0x3002]"

definition unknownErrorMessage :: jsstring where
  "unknownErrorMessage = [0x767C, 0x751F, 0x672A, 0x77E5, 0x932F, 0x8AA4, 0x3002]"

text \<open>The template literal of the catch blocks: step word, step number, failure word, message.\<close>

definition stepFailedMessage :: "int \<Rightarrow> jsstring \<Rightarrow> jsstring" where
  "stepFailedMessage stepNumber message =
     [0x6B65, 0x9A5F, 0x20] @ numberToString stepNumber @ [0x20, 0x5931, 0x6557, 0x3A, 0x20]
       @ message"

definition enterTopicMessage :: jsstring where
  "enterTopicMessage = [0x8ACB, 0x5148, 0x8F38, 0x5165, 0x4E00, 0x500B, 0x8B70, 0x984C, 0x3002]"

subsection \<open>The two call shapes\<close>

text \<open>
  The controller's world: the store, the requests dispatched to the service so far, and
  the pending confirmation of the modal. An \<open>onConfirm\<close> closure is represented by the
  data it closes over.
\<close>

datatype pending =
    RerunConfirm int api_request
  | ResetTopicConfirm
  | SupplementalConfirm api_request bool
  | DeleteCharacterConfirm nat
  | ExtendConfirm api_request

record world =
  store :: AppState
  requests :: "api_request list"
  confirmation :: "pending option"

text \<open>The statements before \<open>try\<close>, the \<open>catch\<close> block and the \<open>finally\<close> block, which
  \<open>handleApiCall\<close> and \<open>handleStreamApiCall\<close> share word for word.\<close>

definition beginCall :: "int \<Rightarrow> AppState \<Rightarrow> AppState" where
  "beginCall stepNumber state =
     setError (\<lambda>_. None)
       (setPreparingStep (\<lambda>_. Some stepNumber)
         (setLoading (\<lambda>prev. prev(stepNumber \<mapsto> True)) state))"

definition catchCall :: "int \<Rightarrow> thrown \<Rightarrow> AppState \<Rightarrow> AppState" where
  "catchCall stepNumber e state =
     (if isRateLimitError e then setError (\<lambda>_. Some quotaMessage) state
      else setError (\<lambda>_. Some (case e of
                                 ErrorObject message \<Rightarrow> stepFailedMessage stepNumber message
                               | OtherValue \<Rightarrow> unknownErrorMessage)) state)"

definition finallyCall :: "int \<Rightarrow> AppState \<Rightarrow> AppState" where
  "finallyCall stepNumber state =
     setPreparingStep (\<lambda>_. None) (setLoading (\<lambda>prev. prev(stepNumber \<mapsto> False)) state)"

text \<open>\<open>if (prompt && promptUpdater) promptUpdater(prompt)\<close>.\<close>

definition applyPromptUpdater ::
  "jsstring option \<Rightarrow> (jsstring \<Rightarrow> AppState \<Rightarrow> AppState) option \<Rightarrow> AppState \<Rightarrow> AppState" where
  "applyPromptUpdater prompt promptUpdater state =
     (case (prompt, promptUpdater) of
        (Some p, Some updater) \<Rightarrow> if p = [] then state else updater p state
      | _ \<Rightarrow> state)"

definition handleApiCall ::
  "int \<Rightarrow> api_request \<Rightarrow> ('r \<times> jsstring option) outcome \<Rightarrow> ('r \<Rightarrow> AppState \<Rightarrow> AppState)
     \<Rightarrow> (jsstring \<Rightarrow> AppState \<Rightarrow> AppState) option \<Rightarrow> world \<Rightarrow> bool \<times> world" where
  "handleApiCall stepNumber request apiFn onSuccess promptUpdater w =
     (case apiFn of
        Resolved (result, prompt) \<Rightarrow>
          (True, w\<lparr>store := finallyCall stepNumber
                     (applyPromptUpdater prompt promptUpdater
                       (onSuccess result (beginCall stepNumber (store w)))),
                  requests := requests w @ [request]\<rparr>)
      | Rejected e \<Rightarrow>
          (False, w\<lparr>store := finallyCall stepNumber
                      (catchCall stepNumber e (beginCall stepNumber (store w))),
                   requests := requests w @ [request]\<rparr>))"

text \<open>
  The \<open>for await\<close> loop of \<open>handleStreamApiCall\<close>: the first chunk clears the preparing
  marker, every chunk goes to \<open>onChunk\<close>.
\<close>

fun consumeStream ::
  "(jsstring \<Rightarrow> AppState \<Rightarrow> AppState) \<Rightarrow> bool \<Rightarrow> jsstring list \<Rightarrow> AppState \<Rightarrow> AppState" where
  "consumeStream onChunk firstChunk [] state = state"
| "consumeStream onChunk firstChunk (chunk # rest) state =
     consumeStream onChunk False rest
       (onChunk chunk (if firstChunk then setPreparingStep (\<lambda>_. None) state else state))"

definition handleStreamApiCall ::
  "int \<Rightarrow> api_request \<Rightarrow> stream_response outcome \<Rightarrow> (AppState \<Rightarrow> AppState)
     \<Rightarrow> (jsstring \<Rightarrow> AppState \<Rightarrow> AppState) \<Rightarrow> (citation list \<Rightarrow> AppState \<Rightarrow> AppState)
     \<Rightarrow> (jsstring \<Rightarrow> AppState \<Rightarrow> AppState) option \<Rightarrow> world \<Rightarrow> bool \<times> world" where
  "handleStreamApiCall stepNumber request streamApiFn onStart onChunk onComplete promptUpdater w =
     (case streamApiFn of
        Rejected e \<Rightarrow>
          (False, w\<lparr>store := finallyCall stepNumber
                      (catchCall stepNumber e (onStart (beginCall stepNumber (store w)))),
                   requests := requests w @ [request]\<rparr>)
      | Resolved r \<Rightarrow>
          (case ending r of
             Throws e \<Rightarrow>
               (False, w\<lparr>store := finallyCall stepNumber
                           (catchCall stepNumber e
                             (consumeStream onChunk True (fragments r)
                               (applyPromptUpdater (resolvedPrompt r) promptUpdater
                                 (onStart (beginCall stepNumber (store w)))))),
                        requests := requests w @ [request]\<rparr>)
           | Exhausted \<Rightarrow>
               (True, w\<lparr>store := finallyCall stepNumber
                          (onComplete (case initialCitations r of None \<Rightarrow> [] | Some cs \<Rightarrow> cs)
                            (consumeStream onChunk True (fragments r)
                              (applyPromptUpdater (resolvedPrompt r) promptUpdater
                                (onStart (beginCall stepNumber (store w)))))),
                       requests := requests w @ [request]\<rparr>)))"

subsection \<open>Step completion\<close>

definition isStepLogicallyCompleted :: "int \<Rightarrow> AppState \<Rightarrow> bool" where
  "isStepLogicallyCompleted stepNumber state =
     (if stepNumber = 1 then isTopicConfirmed state
      else if stepNumber = 2
        then 50 < length (filter (\<lambda>c. \<not> isWhiteSpace c) (researchData state))
             \<or> 0 < length (citations state)
      else if stepNumber = 3 then 0 < length (characters state)
      else if stepNumber = 4 then trim (meetingTranscript state) \<noteq> []
      else if stepNumber = 5 then trim (finalArticle state) \<noteq> []
      else False)"

subsection \<open>The generation calls and their callbacks\<close>

definition appendResearchChunk :: "jsstring \<Rightarrow> AppState \<Rightarrow> AppState" where
  "appendResearchChunk chunk = setResearchData (\<lambda>prev. prev @ chunk)"

definition appendTranscriptChunk :: "jsstring \<Rightarrow> AppState \<Rightarrow> AppState" where
  "appendTranscriptChunk chunk = setMeetingTranscript (\<lambda>prev. prev @ chunk)"

definition appendArticleChunk :: "jsstring \<Rightarrow> AppState \<Rightarrow> AppState" where
  "appendArticleChunk chunk = setFinalArticle (\<lambda>prev. prev @ chunk)"

text \<open>The heading that supplemental research appends before its stream, around the query.\<close>

definition supplementalHeading :: "jsstring \<Rightarrow> jsstring" where
  "supplementalHeading query =
     [0xA, 0xA, 0x2D, 0x2D, 0x2D, 0xA, 0xA, 0x23, 0x23, 0x20, 0x88DC, 0x5145, 0x6982, 0x5FF5,
      0xFF1A] @ query @ [0xA, 0xA]"

text \<open>The separator that an extension appends to the transcript before its stream.\<close>

definition extensionSeparator :: jsstring where
  "extensionSeparator =
     [0xA, 0xA, 0x2D, 0x2D, 0x2D, 0xA, 0xA, 0x23, 0x23, 0x23, 0x20, 0x5EF6, 0x4F38, 0x8A0E,
      0x8AD6, 0xA, 0xA]"

text \<open>
  The call each handler makes, with the callbacks it passes: single-shot for the topic and
  the panel, streaming for the others. No streaming caller passes a prompt updater.
\<close>

fun callApi :: "api_request \<Rightarrow> env \<Rightarrow> world \<Rightarrow> bool \<times> world" where
  "callApi (GenerateTopic prompt) e w =
     handleApiCall 1 (GenerateTopic prompt) (topicApi e)
       (\<lambda>result. setTopic (\<lambda>_. result))
       (Some (\<lambda>p. setPrompts (\<lambda>prev. prev\<lparr>step1 := p\<rparr>))) w"
| "callApi (ConductResearchStream topic' prompt) e w =
     handleStreamApiCall 2 (ConductResearchStream topic' prompt) (streamApi e)
       (\<lambda>state. setCitations (\<lambda>_. []) (setResearchData (\<lambda>_. []) state))
       appendResearchChunk
       (\<lambda>newCitations. setCitations (\<lambda>_. newCitations))
       None w"
| "callApi (SupplementalResearchStream query research prompt) e w =
     handleStreamApiCall 2 (SupplementalResearchStream query research prompt) (streamApi e)
       (setResearchData (\<lambda>prev. prev @ supplementalHeading query))
       appendResearchChunk
       (\<lambda>newCitations. setCitations (\<lambda>prev. pushNewCitations prev newCitations))
       None w"
| "callApi (GenerateMeetingGroup topic' research prompt) e w =
     handleApiCall 3 (GenerateMeetingGroup topic' research prompt) (groupApi e)
       (\<lambda>result. setCharacters (\<lambda>_. result))
       (Some (\<lambda>p. setPrompts (\<lambda>prev. prev\<lparr>step3 := p\<rparr>))) w"
| "callApi (StartDiscussionStream topic' research panel prompt system) e w =
     handleStreamApiCall 4 (StartDiscussionStream topic' research panel prompt system)
       (streamApi e)
       (setMeetingTranscript (\<lambda>_. []))
       appendTranscriptChunk
       (\<lambda>newCitations state. state)
       None w"
| "callApi (ExtendDiscussionStream topic' research panel transcript prompt system) e w =
     handleStreamApiCall 4 (ExtendDiscussionStream topic' research panel transcript prompt system)
       (streamApi e)
       (setMeetingTranscript (\<lambda>prev. prev @ extensionSeparator))
       appendTranscriptChunk
       (\<lambda>newCitations state. state)
       None w"
| "callApi (GenerateFinalArticleStream topic' research transcript prompt system) e w =
     handleStreamApiCall 5 (GenerateFinalArticleStream topic' research transcript prompt system)
       (streamApi e)
       (setFinalArticle (\<lambda>_. []))
       appendArticleChunk
       (\<lambda>newCitations state. state)
       None w"

subsection \<open>Handlers\<close>

text \<open>
  \<open>createRerunHandler\<close>: a step that is logically completed only opens the confirmation;
  otherwise the action runs at once. The action is the call it makes.
\<close>

definition createRerunHandler :: "int \<Rightarrow> api_request \<Rightarrow> env \<Rightarrow> world \<Rightarrow> world" where
  "createRerunHandler stepToRerun actionFn e w =
     (if isStepLogicallyCompleted stepToRerun (store w)
      then w\<lparr>confirmation := Some (RerunConfirm stepToRerun actionFn)\<rparr>
      else snd (callApi actionFn e w))"

definition handleGenerateTopicAI :: "env \<Rightarrow> world \<Rightarrow> world" where
  "handleGenerateTopicAI e w =
     createRerunHandler 1 (GenerateTopic (step1 (prompts (store w)))) e w"

definition handleConfirmAndAdvance :: "world \<Rightarrow> world" where
  "handleConfirmAndAdvance w =
     (if trim (topic (store w)) = []
      then w\<lparr>store := setError (\<lambda>_. Some enterTopicMessage) (store w)\<rparr>
      else w\<lparr>store := setError (\<lambda>_. None) (setStep (\<lambda>_. 2) (confirmTopic (store w)))\<rparr>)"

definition handleResetTopicConfirmation :: "world \<Rightarrow> world" where
  "handleResetTopicConfirmation w = w\<lparr>confirmation := Some ResetTopicConfirm\<rparr>"

definition handleConductResearch :: "env \<Rightarrow> world \<Rightarrow> world" where
  "handleConductResearch e w =
     createRerunHandler 2
       (ConductResearchStream (topic (store w)) (step2 (prompts (store w)))) e w"

text \<open>
  \<open>performSupplementalResearchAction\<close>; \<open>hadConfirmation\<close> is the value of \<open>confirmation\<close>
  that the closure captured when the handler was created.
\<close>

definition performSupplementalResearchAction :: "api_request \<Rightarrow> bool \<Rightarrow> env \<Rightarrow> world \<Rightarrow> world" where
  "performSupplementalResearchAction request hadConfirmation e w =
     (case callApi request e (w\<lparr>store := resetStepsFrom 3 (store w)\<rparr>) of
        (success, w') \<Rightarrow>
          (let w'' = (if success
                      then w'\<lparr>store := setSupplementalResearchQuery (\<lambda>_. []) (store w')\<rparr>
                      else w')
           in if hadConfirmation then w''\<lparr>confirmation := None\<rparr> else w''))"

definition handleSupplementalResearch :: "env \<Rightarrow> world \<Rightarrow> world" where
  "handleSupplementalResearch e w =
     (if trim (supplementalResearchQuery (store w)) = [] then w
      else
        (let hasSubsequentProgress =
               (0 < length (characters (store w))
                \<or> trim (meetingTranscript (store w)) \<noteq> []
                \<or> trim (finalArticle (store w)) \<noteq> []);
             request = SupplementalResearchStream (trim (supplementalResearchQuery (store w)))
                         (researchData (store w)) (step2Add (prompts (store w)))
         in if hasSubsequentProgress
            then w\<lparr>confirmation := Some (SupplementalConfirm request (confirmation w \<noteq> None))\<rparr>
            else performSupplementalResearchAction request (confirmation w \<noteq> None) e w))"

definition handleGenerateGroup :: "env \<Rightarrow> world \<Rightarrow> world" where
  "handleGenerateGroup e w =
     createRerunHandler 3
       (GenerateMeetingGroup (topic (store w)) (researchData (store w))
          (step3 (prompts (store w)))) e w"

definition handleSaveCharacter :: "Character \<Rightarrow> world \<Rightarrow> world" where
  "handleSaveCharacter character w =
     w\<lparr>store := resetStepsFrom 4 (setCharacters (\<lambda>prev. prev @ [character]) (store w))\<rparr>"

definition handleDeleteCharacter :: "nat \<Rightarrow> world \<Rightarrow> world" where
  "handleDeleteCharacter indexToDelete w =
     w\<lparr>confirmation := Some (DeleteCharacterConfirm indexToDelete)\<rparr>"

definition handleStartDiscussion :: "env \<Rightarrow> world \<Rightarrow> world" where
  "handleStartDiscussion e w =
     createRerunHandler 4
       (StartDiscussionStream (topic (store w)) (researchData (store w)) (characters (store w))
          (step4 (prompts (store w))) (step4System (prompts (store w)))) e w"

definition handleExtendDiscussion :: "world \<Rightarrow> world" where
  "handleExtendDiscussion w =
     w\<lparr>confirmation := Some (ExtendConfirm
         (ExtendDiscussionStream (topic (store w)) (researchData (store w))
            (characters (store w)) (meetingTranscript (store w))
            (step4Extend (prompts (store w))) (step4System (prompts (store w)))))\<rparr>"

definition handleGenerateArticle :: "env \<Rightarrow> world \<Rightarrow> world" where
  "handleGenerateArticle e w =
     createRerunHandler 5
       (GenerateFinalArticleStream (topic (store w)) (researchData (store w))
          (meetingTranscript (store w)) (step5 (prompts (store w)))
          (step5System (prompts (store w)))) e w"

subsection \<open>The confirmation modal\<close>

text \<open>What each \<open>onConfirm\<close> closure does when the user confirms.\<close>

fun onConfirm :: "pending \<Rightarrow> env \<Rightarrow> world \<Rightarrow> world" where
  "onConfirm (RerunConfirm stepToRerun actionFn) e w =
     (snd (callApi actionFn e (w\<lparr>store := resetStepsFrom stepToRerun (store w)\<rparr>)))
       \<lparr>confirmation := None\<rparr>"
| "onConfirm ResetTopicConfirm e w =
     w\<lparr>store := resetStepsFrom 1 (store w), confirmation := None\<rparr>"
| "onConfirm (SupplementalConfirm request hadConfirmation) e w =
     performSupplementalResearchAction request hadConfirmation e w"
| "onConfirm (DeleteCharacterConfirm indexToDelete) e w =
     w\<lparr>store := resetStepsFrom 4 (deleteCharacter indexToDelete (store w)),
       confirmation := None\<rparr>"
| "onConfirm (ExtendConfirm request) e w =
     (snd (callApi request e (w\<lparr>store := resetStepsFrom 5 (store w)\<rparr>)))
       \<lparr>confirmation := None\<rparr>"

definition modalConfirm :: "env \<Rightarrow> world \<Rightarrow> world" where
  "modalConfirm e w = (case confirmation w of None \<Rightarrow> w | Some p \<Rightarrow> onConfirm p e w)"

definition modalCancel :: "world \<Rightarrow> world" where
  "modalCancel w = w\<lparr>confirmation := None\<rparr>"

subsection \<open>What the page offers\<close>

text \<open>
  \<open>getStepStatus\<close> calls a step locked when it lies ahead of the current one. The extend
  button is rendered only when step 4 is logically completed, and \<open>ActionButton\<close> disables
  it when its \<open>disabled\<close> or its \<open>isLoading\<close> property holds.
\<close>

definition stepLocked :: "int \<Rightarrow> AppState \<Rightarrow> bool" where
  "stepLocked currentStepNumber state = (step state < currentStepNumber)"

definition extendButtonRendered :: "AppState \<Rightarrow> bool" where
  "extendButtonRendered state = isStepLogicallyCompleted 4 state"

definition extendButtonDisabled :: "AppState \<Rightarrow> bool" where
  "extendButtonDisabled state =
     ((stepLocked 4 state \<or> trim (topic state) = [] \<or> trim (researchData state) = []
        \<or> length (characters state) = 0)
      \<or> (loading state 4 = Some True \<and> trim (meetingTranscript state) \<noteq> []))"

definition clickExtendDiscussion :: "world \<Rightarrow> world" where
  "clickExtendDiscussion w =
     (if extendButtonRendered (store w) \<and> \<not> extendButtonDisabled (store w)
      then handleExtendDiscussion w else w)"

text \<open>The actions of the page that reach the store.\<close>

datatype ui_action =
    GenerateTopicAI
  | ConfirmAndAdvance
  | ResetTopicConfirmation
  | ConductResearch
  | SupplementalResearch
  | GenerateGroup
  | SaveCharacter Character
  | DeleteCharacter nat
  | StartDiscussion
  | ExtendDiscussion
  | GenerateArticle
  | ModalConfirm
  | ModalCancel
  | EditTopic jsstring
  | EditSupplementalQuery jsstring
  | EditPrompts Prompts
  | EditFinalArticle jsstring
  | NavigateToStep int
  | ResetAll

fun perform :: "env \<Rightarrow> ui_action \<Rightarrow> world \<Rightarrow> world" where
  "perform e GenerateTopicAI w = handleGenerateTopicAI e w"
| "perform e ConfirmAndAdvance w = handleConfirmAndAdvance w"
| "perform e ResetTopicConfirmation w = handleResetTopicConfirmation w"
| "perform e ConductResearch w = handleConductResearch e w"
| "perform e SupplementalResearch w = handleSupplementalResearch e w"
| "perform e GenerateGroup w = handleGenerateGroup e w"
| "perform e (SaveCharacter character) w = handleSaveCharacter character w"
| "perform e (DeleteCharacter indexToDelete) w = handleDeleteCharacter indexToDelete w"
| "perform e StartDiscussion w = handleStartDiscussion e w"
| "perform e ExtendDiscussion w = handleExtendDiscussion w"
| "perform e GenerateArticle w = handleGenerateArticle e w"
| "perform e ModalConfirm w = modalConfirm e w"
| "perform e ModalCancel w = modalCancel w"
| "perform e (EditTopic v) w = w\<lparr>store := setTopic (\<lambda>_. v) (store w)\<rparr>"
| "perform e (EditSupplementalQuery v) w =
     w\<lparr>store := setSupplementalResearchQuery (\<lambda>_. v) (store w)\<rparr>"
| "perform e (EditPrompts v) w = w\<lparr>store := setPrompts (\<lambda>_. v) (store w)\<rparr>"
| "perform e (EditFinalArticle v) w = w\<lparr>store := setFinalArticle (\<lambda>_. v) (store w)\<rparr>"
| "perform e (NavigateToStep n) w = w\<lparr>store := setStep (\<lambda>_. n) (store w)\<rparr>"
| "perform e ResetAll w = w\<lparr>store := resetAll (store w)\<rparr>"

section \<open>Vocabulary of the properties\<close>

text \<open>
  A few functions that only name parts of the code above, so that a property can speak of
  every call at once: which calls stream, the step number a call passes, the three
  callbacks a streaming call passes, and the store field its fragments are appended to.
  They are tied to \<open>callApi\<close> by \<open>callApi_streaming\<close> below.
\<close>

fun isStreamingCall :: "api_request \<Rightarrow> bool" where
  "isStreamingCall (GenerateTopic prompt) = False"
| "isStreamingCall (ConductResearchStream topic' prompt) = True"
| "isStreamingCall (SupplementalResearchStream query research prompt) = True"
| "isStreamingCall (GenerateMeetingGroup topic' research prompt) = False"
| "isStreamingCall (StartDiscussionStream topic' research panel prompt system) = True"
| "isStreamingCall (ExtendDiscussionStream topic' research panel transcript prompt system) = True"
| "isStreamingCall (GenerateFinalArticleStream topic' research transcript prompt system) = True"

fun stepOfCall :: "api_request \<Rightarrow> int" where
  "stepOfCall (GenerateTopic prompt) = 1"
| "stepOfCall (ConductResearchStream topic' prompt) = 2"
| "stepOfCall (SupplementalResearchStream query research prompt) = 2"
| "stepOfCall (GenerateMeetingGroup topic' research prompt) = 3"
| "stepOfCall (StartDiscussionStream topic' research panel prompt system) = 4"
| "stepOfCall (ExtendDiscussionStream topic' research panel transcript prompt system) = 4"
| "stepOfCall (GenerateFinalArticleStream topic' research transcript prompt system) = 5"

fun onStartOf :: "api_request \<Rightarrow> AppState \<Rightarrow> AppState" where
  "onStartOf (ConductResearchStream topic' prompt) =
     (\<lambda>state. setCitations (\<lambda>_. []) (setResearchData (\<lambda>_. []) state))"
| "onStartOf (SupplementalResearchStream query research prompt) =
     setResearchData (\<lambda>prev. prev @ supplementalHeading query)"
| "onStartOf (StartDiscussionStream topic' research panel prompt system) =
     setMeetingTranscript (\<lambda>_. [])"
| "onStartOf (ExtendDiscussionStream topic' research panel transcript prompt system) =
     setMeetingTranscript (\<lambda>prev. prev @ extensionSeparator)"
| "onStartOf (GenerateFinalArticleStream topic' research transcript prompt system) =
     setFinalArticle (\<lambda>_. [])"
| "onStartOf request = (\<lambda>state. state)"

fun onChunkOf :: "api_request \<Rightarrow> jsstring \<Rightarrow> AppState \<Rightarrow> AppState" where
  "onChunkOf (ConductResearchStream topic' prompt) = appendResearchChunk"
| "onChunkOf (SupplementalResearchStream query research prompt) = appendResearchChunk"
| "onChunkOf (StartDiscussionStream topic' research panel prompt system) = appendTranscriptChunk"
| "onChunkOf (ExtendDiscussionStream topic' research panel transcript prompt system) =
     appendTranscriptChunk"
| "onChunkOf (GenerateFinalArticleStream topic' research transcript prompt system) =
     appendArticleChunk"
| "onChunkOf request = (\<lambda>chunk state. state)"

fun onCompleteOf :: "api_request \<Rightarrow> citation list \<Rightarrow> AppState \<Rightarrow> AppState" where
  "onCompleteOf (ConductResearchStream topic' prompt) =
     (\<lambda>newCitations. setCitations (\<lambda>_. newCitations))"
| "onCompleteOf (SupplementalResearchStream query research prompt) =
     (\<lambda>newCitations. setCitations (\<lambda>prev. pushNewCitations prev newCitations))"
| "onCompleteOf request = (\<lambda>newCitations state. state)"

fun targetBuffer :: "api_request \<Rightarrow> AppState \<Rightarrow> jsstring" where
  "targetBuffer (ConductResearchStream topic' prompt) state = researchData state"
| "targetBuffer (SupplementalResearchStream query research prompt) state = researchData state"
| "targetBuffer (StartDiscussionStream topic' research panel prompt system) state =
     meetingTranscript state"
| "targetBuffer (ExtendDiscussionStream topic' research panel transcript prompt system) state =
     meetingTranscript state"
| "targetBuffer (GenerateFinalArticleStream topic' research transcript prompt system) state =
     finalArticle state"
| "targetBuffer request state = []"

text \<open>
  The store in the middle of a streaming call: after the statements before the loop
  (\<open>beginCall\<close>, \<open>onStart\<close>) and after the loop has consumed the fragments \<open>chunks\<close>.
\<close>

definition streamingAfter :: "api_request \<Rightarrow> world \<Rightarrow> jsstring list \<Rightarrow> AppState" where
  "streamingAfter request w chunks =
     consumeStream (onChunkOf request) True chunks
       (onStartOf request (beginCall (stepOfCall request) (store w)))"

text \<open>
  The merge of the citation set as the specification words it: the entries of a sequence,
  in order, whose uri is neither in \<open>seen\<close> nor carried by an earlier entry.
\<close>

fun firstByUri :: "jsstring set \<Rightarrow> citation list \<Rightarrow> citation list" where
  "firstByUri seen [] = []"
| "firstByUri seen (c # cs) =
     (if uri c \<in> seen then firstByUri seen cs else c # firstByUri (insert (uri c) seen) cs)"

text \<open>The page's actions whose whole effect is to move between steps or to start over.\<close>

fun isNavigation :: "ui_action \<Rightarrow> bool" where
  "isNavigation (NavigateToStep n) = True"
| "isNavigation ResetAll = True"
| "isNavigation a = False"

section \<open>Sample data\<close>

definition populated :: AppState where
  "populated =
     \<lparr>step = 5, loading = [2 \<mapsto> False, 3 \<mapsto> True, 5 \<mapsto> False], preparingStep = Some 3,
      error = Some (js ''old''), topic = js ''X'', isTopicConfirmed = True,
      researchData = js ''facts'', supplementalResearchQuery = js ''more'',
      citations = [\<lparr>title = js ''t'', uri = js ''u''\<rparr>],
      characters = [\<lparr>name = js ''n'', profession = js ''p'', background = js ''b''\<rparr>],
      meetingTranscript = js ''talk'', finalArticle = js ''text'',
      prompts = \<lparr>step1 = js ''p1'', step2 = js ''p2'', step2Add = js ''p2a'', step3 = js ''p3'',
        step4 = js ''p4'', step4Extend = js ''p4e'', step5 = js ''p5'', step4System = js ''s4'',
        step5System = js ''s5''\<rparr>\<rparr>"

definition populatedWorld :: world where
  "populatedWorld = \<lparr>store = populated, requests = [], confirmation = None\<rparr>"

definition freshState :: AppState where
  "freshState =
     \<lparr>step = 1, loading = Map.empty, preparingStep = None, error = None, topic = [],
      isTopicConfirmed = False, researchData = [], supplementalResearchQuery = [],
      citations = [], characters = [], meetingTranscript = [], finalArticle = [],
      prompts = DEFAULT_PROMPTS\<rparr>"

definition freshWorld :: world where
  "freshWorld = \<lparr>store = freshState, requests = [], confirmation = None\<rparr>"

definition typedTopicWorld :: world where
  "typedTopicWorld = freshWorld\<lparr>store := freshState\<lparr>topic := js ''X''\<rparr>\<rparr>"

definition blankTopicWorld :: world where
  "blankTopicWorld = freshWorld\<lparr>store := freshState\<lparr>topic := [0x20, 0x3000, 0xA]\<rparr>\<rparr>"

definition abcStream :: stream_response where
  "abcStream =
     \<lparr>fragments = [js ''A'', js ''B'', js ''C''], ending = Exhausted, initialCitations = None,
      resolvedPrompt = None\<rparr>"

definition abcEnv :: env where
  "abcEnv =
     \<lparr>topicApi = Rejected OtherValue, groupApi = Rejected OtherValue,
      streamApi = Resolved abcStream\<rparr>"

definition articleRequest :: api_request where
  "articleRequest =
     GenerateFinalArticleStream (js ''X'') (js ''facts'') (js ''talk'') (js ''p5'') (js ''s5'')"

definition researchRequest :: api_request where
  "researchRequest = ConductResearchStream (js ''X'') (js ''p2'')"

definition extendRequest :: api_request where
  "extendRequest =
     ExtendDiscussionStream (js ''X'') (js ''facts'')
       [\<lparr>name = js ''n'', profession = js ''p'', background = js ''b''\<rparr>] (js ''talk'')
       (js ''p4e'') (js ''s4'')"

definition citeOne :: citation where
  "citeOne = \<lparr>title = js ''one'', uri = js ''http://one''\<rparr>"

definition citeTwo :: citation where
  "citeTwo = \<lparr>title = untitled, uri = js ''http://two''\<rparr>"

definition chunkOne :: response_chunk where
  "chunkOne =
     \<lparr>chunk_text = Some (js ''A''),
      groundingChunks = [Some \<lparr>web_title = Some (js ''one''), web_uri = js ''http://one''\<rparr>]\<rparr>"

definition chunkTwo :: response_chunk where
  "chunkTwo =
     \<lparr>chunk_text = Some (js ''B''),
      groundingChunks = [None, Some \<lparr>web_title = None, web_uri = js ''http://two''\<rparr>]\<rparr>"

definition supplementalRequest :: api_request where
  "supplementalRequest = SupplementalResearchStream (js ''more'') (js ''facts'') (js ''p2a'')"

definition groundedEnv :: "stream_end \<Rightarrow> env" where
  "groundedEnv fin =
     \<lparr>topicApi = Rejected OtherValue, groupApi = Rejected OtherValue,
      streamApi = Resolved (supplementalResearchStream (js ''p2a'') [chunkOne, chunkTwo] fin)\<rparr>"

definition brokenStream :: "thrown \<Rightarrow> stream_response" where
  "brokenStream x =
     \<lparr>fragments = [js ''A'', js ''B''], ending = Throws x, initialCitations = Some [],
      resolvedPrompt = Some (js ''p2'')\<rparr>"

definition brokenEnv :: "thrown \<Rightarrow> env" where
  "brokenEnv x =
     \<lparr>topicApi = Rejected x, groupApi = Rejected x, streamApi = Resolved (brokenStream x)\<rparr>"

definition citesA :: "citation list" where
  "citesA =
     [\<lparr>title = js ''first'', uri = js ''u1''\<rparr>, \<lparr>title = js ''second'', uri = js ''u2''\<rparr>,
      \<lparr>title = js ''again'', uri = js ''u1''\<rparr>]"

definition citesB :: "citation list" where
  "citesB =
     [\<lparr>title = js ''other'', uri = js ''u2''\<rparr>, \<lparr>title = js ''third'', uri = js ''u3''\<rparr>,
      \<lparr>title = js ''third again'', uri = js ''u3''\<rparr>]"

section \<open>Verification: shared lemmas\<close>

lemmas setter_defs = setStep_def setLoading_def setPreparingStep_def setError_def setTopic_def
  confirmTopic_def setResearchData_def setSupplementalResearchQuery_def setCitations_def
  setCharacters_def setMeetingTranscript_def setFinalArticle_def setPrompts_def

lemmas call_defs = beginCall_def catchCall_def finallyCall_def applyPromptUpdater_def

lemma consumeStream_research:
  "consumeStream appendResearchChunk firstChunk chunks s
     = s\<lparr>researchData := researchData s @ concat chunks,
         preparingStep := (if firstChunk \<and> chunks \<noteq> [] then None else preparingStep s)\<rparr>"
  by (induction chunks arbitrary: firstChunk s)
     (simp_all add: appendResearchChunk_def setter_defs)

lemma consumeStream_transcript:
  "consumeStream appendTranscriptChunk firstChunk chunks s
     = s\<lparr>meetingTranscript := meetingTranscript s @ concat chunks,
         preparingStep := (if firstChunk \<and> chunks \<noteq> [] then None else preparingStep s)\<rparr>"
  by (induction chunks arbitrary: firstChunk s)
     (simp_all add: appendTranscriptChunk_def setter_defs)

lemma consumeStream_article:
  "consumeStream appendArticleChunk firstChunk chunks s
     = s\<lparr>finalArticle := finalArticle s @ concat chunks,
         preparingStep := (if firstChunk \<and> chunks \<noteq> [] then None else preparingStep s)\<rparr>"
  by (induction chunks arbitrary: firstChunk s)
     (simp_all add: appendArticleChunk_def setter_defs)

lemma applyPromptUpdater_None: "applyPromptUpdater prompt None state = state"
  by (simp add: applyPromptUpdater_def split: option.splits)

lemma callApi_streaming:
  "isStreamingCall request \<Longrightarrow>
   callApi request e w
     = handleStreamApiCall (stepOfCall request) request (streamApi e) (onStartOf request)
         (onChunkOf request) (onCompleteOf request) None w"
  by (cases request) simp_all

declare callApi.simps [simp del]

text \<open>The store a streaming call leaves, by the way its stream ends.\<close>

lemma callApi_exhausted:
  assumes "isStreamingCall request" and "streamApi e = Resolved r" and "ending r = Exhausted"
  shows "callApi request e w
     = (True, w\<lparr>store := finallyCall (stepOfCall request)
                  (onCompleteOf request (case initialCitations r of None \<Rightarrow> [] | Some cs \<Rightarrow> cs)
                    (streamingAfter request w (fragments r))),
                requests := requests w @ [request]\<rparr>)"
  using assms
  by (simp add: callApi_streaming handleStreamApiCall_def streamingAfter_def
      applyPromptUpdater_None)

lemma callApi_throws:
  assumes "isStreamingCall request" and "streamApi e = Resolved r" and "ending r = Throws x"
  shows "callApi request e w
     = (False, w\<lparr>store := finallyCall (stepOfCall request)
                  (catchCall (stepOfCall request) x (streamingAfter request w (fragments r))),
                requests := requests w @ [request]\<rparr>)"
  using assms
  by (simp add: callApi_streaming handleStreamApiCall_def streamingAfter_def
      applyPromptUpdater_None)

lemma streamingAfter_buffer:
  "isStreamingCall request \<Longrightarrow>
   targetBuffer request (streamingAfter request w chunks)
     = targetBuffer request (streamingAfter request w []) @ concat chunks"
  by (cases request)
     (simp_all add: streamingAfter_def consumeStream_research consumeStream_transcript
        consumeStream_article)

lemma streamingAfter_preparing:
  "isStreamingCall request \<Longrightarrow>
   preparingStep (streamingAfter request w chunks)
     = (if chunks = [] then Some (stepOfCall request) else None)"
  by (cases request)
     (simp_all add: streamingAfter_def consumeStream_research consumeStream_transcript
        consumeStream_article beginCall_def setter_defs)

lemma streamingAfter_citations:
  "isStreamingCall request \<Longrightarrow>
   citations (streamingAfter request w chunks)
     = citations (onStartOf request (store w))"
  by (cases request)
     (simp_all add: streamingAfter_def consumeStream_research consumeStream_transcript
        consumeStream_article beginCall_def setter_defs)

lemma targetBuffer_catch_finally:
  "targetBuffer request (finallyCall n (catchCall n x s)) = targetBuffer request s"
  by (cases request) (simp_all add: call_defs setter_defs)

lemma targetBuffer_complete_finally:
  "targetBuffer request (finallyCall n (onCompleteOf request cs s)) = targetBuffer request s"
  by (cases request) (simp_all add: call_defs setter_defs)

lemma finallyCall_flags:
  "preparingStep (finallyCall n s) = None"
  "loading (finallyCall n s) n = Some False"
  by (simp_all add: finallyCall_def setter_defs)

lemma requests_callApi: "requests (snd (callApi request e w)) = requests w @ [request]"
  by (cases request)
     (simp_all add: callApi.simps handleApiCall_def handleStreamApiCall_def
        split: outcome.splits prod.splits stream_end.splits)

lemma store_callApi_cong:
  "store w = store w' \<Longrightarrow>
   store (snd (callApi request e w)) = store (snd (callApi request e w'))
   \<and> fst (callApi request e w) = fst (callApi request e w')"
  by (cases request)
     (simp_all add: callApi.simps handleApiCall_def handleStreamApiCall_def
        split: outcome.splits prod.splits stream_end.splits)

lemma resetStepsFrom_step: "step (resetStepsFrom fromStep s) = step s"
  by (simp add: resetStepsFrom_def Let_def)

lemma step_callApi: "step (store (snd (callApi request e w))) = step (store w)"
proof (cases "isStreamingCall request")
  case True
  have loop: "step (consumeStream (onChunkOf request) b chunks s) = step s" for b chunks s
    using True
    by (cases request)
       (simp_all add: consumeStream_research consumeStream_transcript consumeStream_article)
  have start: "step (onStartOf request s) = step s" for s
    by (cases request) (simp_all add: setter_defs)
  have complete: "step (onCompleteOf request cs s) = step s" for cs s
    by (cases request) (simp_all add: setter_defs)
  have wrap: "step (finallyCall n s) = step s" "step (catchCall n x s) = step s"
    "step (beginCall n s) = step s" for n x s
    by (simp_all add: call_defs setter_defs)
  show ?thesis
    by (simp add: callApi_streaming [OF True] handleStreamApiCall_def applyPromptUpdater_None
        loop start complete wrap split: outcome.splits stream_end.splits)
next
  case False
  then show ?thesis
    by (cases request)
       (simp_all add: callApi.simps handleApiCall_def call_defs setter_defs
          split: outcome.splits prod.splits option.splits)
qed

section \<open>Verification: cascade invalidation\<close>

lemma deleteLoadingFrom_apply:
  "deleteLoadingFrom i m k = (if i \<le> k \<and> k \<le> 5 then None else m k)"
proof (induction i m rule: deleteLoadingFrom.induct)
  case (1 i newLoading)
  show ?case
  proof (cases "i \<le> 5")
    case True
    have "deleteLoadingFrom i newLoading k
            = deleteLoadingFrom (i + 1) (newLoading(i := None)) k"
      using True by (subst deleteLoadingFrom.simps) simp
    also have "\<dots> = (if i + 1 \<le> k \<and> k \<le> 5 then None else (newLoading(i := None)) k)"
      by (rule "1.IH" [OF True])
    also have "\<dots> = (if i \<le> k \<and> k \<le> 5 then None else newLoading k)"
      using True by (cases "k = i") auto
    finally show ?thesis .
  next
    case False
    then show ?thesis
      by (subst deleteLoadingFrom.simps) auto
  qed
qed

text \<open>
  C1. For \<open>fromStep\<close> in 1..5, \<open>resetStepsFrom fromStep\<close> resets the primary entity of
  every step with index at least \<open>fromStep\<close> to its empty default (from 2 this includes the
  supplemental query and the citations, from 1 the topic text and its confirmation flag),
  leaves the entities of the steps below \<open>fromStep\<close> as they were, removes the keys from
  \<open>fromStep\<close> on from the loading map (whose keys are step numbers, 1 to 5) and keeps the
  flags below, and sets the error to null.
\<close>

theorem resetStepsFrom_cascade:
  assumes "1 \<le> fromStep" and "fromStep \<le> 5" and "dom (loading s) \<subseteq> {1..5}"
  shows "(fromStep \<le> 1 \<longrightarrow> topic (resetStepsFrom fromStep s) = []
            \<and> \<not> isTopicConfirmed (resetStepsFrom fromStep s))
       \<and> (fromStep \<le> 2 \<longrightarrow> researchData (resetStepsFrom fromStep s) = []
            \<and> supplementalResearchQuery (resetStepsFrom fromStep s) = []
            \<and> citations (resetStepsFrom fromStep s) = [])
       \<and> (fromStep \<le> 3 \<longrightarrow> characters (resetStepsFrom fromStep s) = [])
       \<and> (fromStep \<le> 4 \<longrightarrow> meetingTranscript (resetStepsFrom fromStep s) = [])
       \<and> finalArticle (resetStepsFrom fromStep s) = []
       \<and> (1 < fromStep \<longrightarrow> topic (resetStepsFrom fromStep s) = topic s
            \<and> isTopicConfirmed (resetStepsFrom fromStep s) = isTopicConfirmed s)
       \<and> (2 < fromStep \<longrightarrow> researchData (resetStepsFrom fromStep s) = researchData s
            \<and> supplementalResearchQuery (resetStepsFrom fromStep s) = supplementalResearchQuery s
            \<and> citations (resetStepsFrom fromStep s) = citations s)
       \<and> (3 < fromStep \<longrightarrow> characters (resetStepsFrom fromStep s) = characters s)
       \<and> (4 < fromStep \<longrightarrow> meetingTranscript (resetStepsFrom fromStep s) = meetingTranscript s)
       \<and> (\<forall>k. fromStep \<le> k \<longrightarrow> loading (resetStepsFrom fromStep s) k = None)
       \<and> (\<forall>k. k < fromStep \<longrightarrow> loading (resetStepsFrom fromStep s) k = loading s k)
       \<and> error (resetStepsFrom fromStep s) = None"
proof -
  have keys: "loading s k = None" if "5 < k" for k
  proof -
    from that have "k \<notin> {1..5}" by simp
    with assms(3) have "k \<notin> dom (loading s)" by blast
    then show ?thesis by (simp add: domIff)
  qed
  have gone: "loading (resetStepsFrom fromStep s) k = None" if "fromStep \<le> k" for k
    using that keys [of k] by (simp add: resetStepsFrom_def Let_def deleteLoadingFrom_apply)
  have kept: "loading (resetStepsFrom fromStep s) k = loading s k" if "k < fromStep" for k
    using that by (simp add: resetStepsFrom_def Let_def deleteLoadingFrom_apply)
  have fields: "(fromStep \<le> 1 \<longrightarrow> topic (resetStepsFrom fromStep s) = []
            \<and> \<not> isTopicConfirmed (resetStepsFrom fromStep s))
       \<and> (fromStep \<le> 2 \<longrightarrow> researchData (resetStepsFrom fromStep s) = []
            \<and> supplementalResearchQuery (resetStepsFrom fromStep s) = []
            \<and> citations (resetStepsFrom fromStep s) = [])
       \<and> (fromStep \<le> 3 \<longrightarrow> characters (resetStepsFrom fromStep s) = [])
       \<and> (fromStep \<le> 4 \<longrightarrow> meetingTranscript (resetStepsFrom fromStep s) = [])
       \<and> finalArticle (resetStepsFrom fromStep s) = []
       \<and> (1 < fromStep \<longrightarrow> topic (resetStepsFrom fromStep s) = topic s
            \<and> isTopicConfirmed (resetStepsFrom fromStep s) = isTopicConfirmed s)
       \<and> (2 < fromStep \<longrightarrow> researchData (resetStepsFrom fromStep s) = researchData s
            \<and> supplementalResearchQuery (resetStepsFrom fromStep s) = supplementalResearchQuery s
            \<and> citations (resetStepsFrom fromStep s) = citations s)
       \<and> (3 < fromStep \<longrightarrow> characters (resetStepsFrom fromStep s) = characters s)
       \<and> (4 < fromStep \<longrightarrow> meetingTranscript (resetStepsFrom fromStep s) = meetingTranscript s)
       \<and> error (resetStepsFrom fromStep s) = None"
    using assms(2) by (simp add: resetStepsFrom_def Let_def)
  from fields gone kept show ?thesis by blast
qed

theorem resetStepsFrom_cascade_witness:
  "(1::int) \<le> 3 \<and> (3::int) \<le> 5 \<and> dom (loading populated) \<subseteq> {1..5}
   \<and> topic (resetStepsFrom 3 populated) = js ''X''
   \<and> isTopicConfirmed (resetStepsFrom 3 populated)
   \<and> researchData (resetStepsFrom 3 populated) = js ''facts''
   \<and> citations (resetStepsFrom 3 populated) = [\<lparr>title = js ''t'', uri = js ''u''\<rparr>]
   \<and> characters (resetStepsFrom 3 populated) = []
   \<and> meetingTranscript (resetStepsFrom 3 populated) = []
   \<and> finalArticle (resetStepsFrom 3 populated) = []
   \<and> loading (resetStepsFrom 3 populated) 2 = Some False
   \<and> loading (resetStepsFrom 3 populated) 3 = None
   \<and> loading (resetStepsFrom 3 populated) 5 = None
   \<and> error (resetStepsFrom 3 populated) = None"
proof -
  have h: "dom (loading populated) \<subseteq> {1..5}"
    by (simp add: populated_def)
  show ?thesis
    using h resetStepsFrom_cascade [of 3 populated, OF _ _ h]
    by (simp add: populated_def)
qed

text \<open>
  C10. \<open>resetStepsFrom\<close> never moves the current step pointer, never touches the prompt
  templates and never clears the preparing marker, whatever \<open>fromStep\<close> and the state are.
\<close>

theorem resetStepsFrom_frame:
  "step (resetStepsFrom fromStep s) = step s
   \<and> prompts (resetStepsFrom fromStep s) = prompts s
   \<and> preparingStep (resetStepsFrom fromStep s) = preparingStep s"
  by (simp add: resetStepsFrom_def Let_def)

section \<open>Verification: citation merge\<close>

lemma pushNewCitations_firstByUri:
  "pushNewCitations merged cs = merged @ firstByUri (set (map uri merged)) cs"
proof (induction cs arbitrary: merged)
  case Nil
  show ?case by simp
next
  case (Cons c cs)
  show ?case
  proof (cases "uri c \<in> set (map uri merged)")
    case True
    then have "list_ex (\<lambda>mc. uri mc = uri c) merged"
      unfolding list_ex_iff by auto
    with True Cons.IH [of merged] show ?thesis by simp
  next
    case False
    then have "\<not> list_ex (\<lambda>mc. uri mc = uri c) merged"
      unfolding list_ex_iff by (metis image_eqI set_map)
    with False Cons.IH [of "merged @ [c]"] show ?thesis by simp
  qed
qed

lemma firstByUri_uris: "uri ` set (firstByUri S cs) = uri ` set cs - S"
proof (induction cs arbitrary: S)
  case Nil
  show ?case by simp
next
  case (Cons c cs)
  show ?case
  proof (cases "uri c \<in> S")
    case True
    with Cons.IH [of S] show ?thesis by auto
  next
    case False
    with Cons.IH [of "insert (uri c) S"] show ?thesis by auto
  qed
qed

lemma firstByUri_distinct: "distinct (map uri (firstByUri S cs))"
proof (induction cs arbitrary: S)
  case Nil
  show ?case by simp
next
  case (Cons c cs)
  have "uri c \<notin> uri ` set (firstByUri (insert (uri c) S) cs)"
    by (simp add: firstByUri_uris)
  with Cons.IH show ?case by simp
qed

lemma firstByUri_filter:
  "firstByUri (S \<union> T) cs = firstByUri T (filter (\<lambda>c. uri c \<notin> S) cs)"
proof (induction cs arbitrary: T)
  case Nil
  show ?case by simp
next
  case (Cons c cs)
  from Cons.IH [of T] Cons.IH [of "insert (uri c) T"] show ?case by simp
qed

lemma firstByUri_find:
  "c \<in> set (firstByUri S cs) \<Longrightarrow> find (\<lambda>d. uri d = uri c) cs = Some c"
proof (induction cs arbitrary: S)
  case Nil
  then show ?case by simp
next
  case (Cons x cs)
  show ?case
  proof (cases "uri x \<in> S")
    case True
    with Cons.prems have mem: "c \<in> set (firstByUri S cs)" by simp
    then have "uri c \<in> uri ` set (firstByUri S cs)" by blast
    then have "uri c \<notin> S" by (simp add: firstByUri_uris)
    with True have "uri x \<noteq> uri c" by auto
    with Cons.IH [OF mem] show ?thesis by simp
  next
    case False
    with Cons.prems have "c = x \<or> c \<in> set (firstByUri (insert (uri x) S) cs)" by simp
    then show ?thesis
    proof
      assume "c = x"
      then show ?thesis by simp
    next
      assume mem: "c \<in> set (firstByUri (insert (uri x) S) cs)"
      then have "uri c \<in> uri ` set (firstByUri (insert (uri x) S) cs)" by blast
      then have "uri c \<noteq> uri x" by (simp add: firstByUri_uris)
      with Cons.IH [OF mem] show ?thesis by simp
    qed
  qed
qed

lemma find_append_cases:
  "find P (xs @ ys) = (case find P xs of None \<Rightarrow> find P ys | Some x \<Rightarrow> Some x)"
  by (induction xs) auto

lemma firstByUri_id: "distinct (map uri cs) \<Longrightarrow> uri ` set cs \<inter> S = {} \<Longrightarrow> firstByUri S cs = cs"
  by (induction cs arbitrary: S) auto

text \<open>
  C3. Merging the empty citation set with \<open>A\<close> and the result with \<open>B\<close> gives the entries
  of \<open>A\<close> in their order (the first entry of each uri), followed by the entries of \<open>B\<close> whose
  uri does not occur in \<open>A\<close>, in their order (again the first of each uri). Every uri of \<open>A\<close>
  or \<open>B\<close> occurs exactly once, and the entry kept for a uri is the first one with that uri
  in \<open>A\<close> followed by \<open>B\<close>, so the first title seen wins.
\<close>

theorem merge_twice:
  "pushNewCitations (pushNewCitations [] A) B
     = firstByUri {} A @ firstByUri {} (filter (\<lambda>c. uri c \<notin> uri ` set A) B)
   \<and> distinct (map uri (pushNewCitations (pushNewCitations [] A) B))
   \<and> uri ` set (pushNewCitations (pushNewCitations [] A) B) = uri ` set A \<union> uri ` set B
   \<and> (\<forall>c \<in> set (pushNewCitations (pushNewCitations [] A) B).
         find (\<lambda>d. uri d = uri c) (A @ B) = Some c)
   \<and> (distinct (map uri A) \<longrightarrow>
         pushNewCitations (pushNewCitations [] A) B
           = A @ firstByUri {} (filter (\<lambda>c. uri c \<notin> uri ` set A) B))
   \<and> (citations s = [] \<longrightarrow>
         citations (appendToResearch textB B (appendToResearch textA A s))
           = pushNewCitations (pushNewCitations [] A) B)"
proof -
  let ?R = "pushNewCitations (pushNewCitations [] A) B"
  have store: "citations (appendToResearch textB B (appendToResearch textA A s)) = ?R"
    if "citations s = []"
    using that by (simp add: appendToResearch_def)
  have first: "pushNewCitations [] A = firstByUri {} A"
    by (simp add: pushNewCitations_firstByUri)
  have seen: "set (map uri (firstByUri {} A)) = uri ` set A"
    using firstByUri_uris [of "{}" A] by simp
  have "?R = firstByUri {} A @ firstByUri (uri ` set A) B"
    by (simp only: first pushNewCitations_firstByUri [of "firstByUri {} A" B] seen)
  moreover have "firstByUri (uri ` set A) B
      = firstByUri {} (filter (\<lambda>c. uri c \<notin> uri ` set A) B)"
    using firstByUri_filter [of "uri ` set A" "{}" B] by simp
  ultimately have shape: "?R = firstByUri {} A @ firstByUri (uri ` set A) B"
    and order: "?R = firstByUri {} A @ firstByUri {} (filter (\<lambda>c. uri c \<notin> uri ` set A) B)"
    by simp_all
  have once: "distinct (map uri ?R)"
    unfolding shape using firstByUri_uris [of "{}" A] firstByUri_uris [of "uri ` set A" B]
    by (auto simp: firstByUri_distinct)
  have all: "uri ` set ?R = uri ` set A \<union> uri ` set B"
    unfolding shape using firstByUri_uris [of "{}" A] firstByUri_uris [of "uri ` set A" B]
    by (auto simp: image_Un)
  have title: "find (\<lambda>d. uri d = uri c) (A @ B) = Some c" if "c \<in> set ?R" for c
  proof -
    from that have "c \<in> set (firstByUri {} A) \<or> c \<in> set (firstByUri (uri ` set A) B)"
      unfolding shape by simp
    then show ?thesis
    proof
      assume "c \<in> set (firstByUri {} A)"
      then have "find (\<lambda>d. uri d = uri c) A = Some c" by (rule firstByUri_find)
      then show ?thesis by (simp add: find_append_cases)
    next
      assume mem: "c \<in> set (firstByUri (uri ` set A) B)"
      then have "uri c \<in> uri ` set (firstByUri (uri ` set A) B)" by blast
      then have "uri c \<notin> uri ` set A" by (simp add: firstByUri_uris)
      then have "find (\<lambda>d. uri d = uri c) A = None"
        unfolding find_None_iff by (metis image_eqI)
      with firstByUri_find [OF mem] show ?thesis by (simp add: find_append_cases)
    qed
  qed
  have plain: "?R = A @ firstByUri {} (filter (\<lambda>c. uri c \<notin> uri ` set A) B)"
    if "distinct (map uri A)"
    using that order firstByUri_id [of A "{}"] by simp
  from order once all title plain store show ?thesis by blast
qed

theorem merge_twice_witness:
  "pushNewCitations (pushNewCitations [] citesA) citesB
     = [\<lparr>title = js ''first'', uri = js ''u1''\<rparr>, \<lparr>title = js ''second'', uri = js ''u2''\<rparr>,
        \<lparr>title = js ''third'', uri = js ''u3''\<rparr>]
   \<and> \<lparr>title = js ''second'', uri = js ''u2''\<rparr>
         \<in> set (pushNewCitations (pushNewCitations [] citesA) citesB)
   \<and> find (\<lambda>d. uri d = js ''u2'') (citesA @ citesB) = Some \<lparr>title = js ''second'', uri = js ''u2''\<rparr>"
proof -
  have val: "pushNewCitations (pushNewCitations [] citesA) citesB
     = [\<lparr>title = js ''first'', uri = js ''u1''\<rparr>, \<lparr>title = js ''second'', uri = js ''u2''\<rparr>,
        \<lparr>title = js ''third'', uri = js ''u3''\<rparr>]"
    by (simp add: citesA_def citesB_def js_def)
  have mem: "\<lparr>title = js ''second'', uri = js ''u2''\<rparr>
         \<in> set (pushNewCitations (pushNewCitations [] citesA) citesB)"
    by (simp add: val)
  from merge_twice [of citesA citesB] mem
  have "find (\<lambda>d. uri d = uri \<lparr>title = js ''second'', uri = js ''u2''\<rparr>) (citesA @ citesB)
          = Some \<lparr>title = js ''second'', uri = js ''u2''\<rparr>"
    by blast
  with val mem show ?thesis by simp
qed

section \<open>Verification: streaming calls\<close>

text \<open>
  C2. For every streaming call whose stream yields the fragments A, B, C and is then
  exhausted: the loop applies the call's \<open>onChunk\<close> exactly three times, to A, then B, then
  C, each time appending to the call's buffer, so that the final buffer is the buffer at the
  first fragment followed by ABC, and is ABC when that buffer was empty. The preparing marker
  holds the step number before the first fragment and is null as soon as the first fragment
  has been consumed. The buffer at the first fragment is always empty for the initial
  research, the start of the discussion and the article, whose \<open>onStart\<close> clears it; for
  the supplemental research and the extension it is the earlier content followed by the
  heading or separator that \<open>onStart\<close> appends.
\<close>

theorem streaming_ABC:
  assumes "isStreamingCall request" and "streamApi e = Resolved r"
    and "fragments r = [js ''A'', js ''B'', js ''C'']" and "ending r = Exhausted"
  shows "fst (callApi request e w)
    \<and> streamingAfter request w (fragments r)
        = onChunkOf request (js ''C'') (onChunkOf request (js ''B'') (onChunkOf request (js ''A'')
            (setPreparingStep (\<lambda>_. None) (streamingAfter request w []))))
    \<and> store (snd (callApi request e w))
        = finallyCall (stepOfCall request)
            (onCompleteOf request (case initialCitations r of None \<Rightarrow> [] | Some cs \<Rightarrow> cs)
              (streamingAfter request w (fragments r)))
    \<and> targetBuffer request (store (snd (callApi request e w)))
        = targetBuffer request (streamingAfter request w []) @ js ''ABC''
    \<and> (targetBuffer request (streamingAfter request w []) = []
         \<longrightarrow> targetBuffer request (store (snd (callApi request e w))) = js ''ABC'')
    \<and> preparingStep (streamingAfter request w []) = Some (stepOfCall request)
    \<and> preparingStep (streamingAfter request w [js ''A'']) = None
    \<and> targetBuffer request (streamingAfter request w [js ''A''])
        = targetBuffer request (streamingAfter request w []) @ js ''A''
    \<and> preparingStep (store (snd (callApi request e w))) = None
    \<and> researchData (streamingAfter (ConductResearchStream topic' prompt) w []) = []
    \<and> researchData (streamingAfter (SupplementalResearchStream query research prompt) w [])
        = researchData (store w) @ supplementalHeading query
    \<and> meetingTranscript
          (streamingAfter (StartDiscussionStream topic' research panel prompt system) w []) = []
    \<and> meetingTranscript
          (streamingAfter (ExtendDiscussionStream topic' research panel transcript prompt system)
            w [])
        = meetingTranscript (store w) @ extensionSeparator
    \<and> finalArticle
          (streamingAfter (GenerateFinalArticleStream topic' research transcript prompt system)
            w []) = []"
proof -
  note run = callApi_exhausted [OF assms(1) assms(2) assms(4), of w]
  have seeded:
    "researchData (streamingAfter (ConductResearchStream topic' prompt) w []) = []"
    "researchData (streamingAfter (SupplementalResearchStream query research prompt) w [])
        = researchData (store w) @ supplementalHeading query"
    "meetingTranscript
          (streamingAfter (StartDiscussionStream topic' research panel prompt system) w []) = []"
    "meetingTranscript
          (streamingAfter (ExtendDiscussionStream topic' research panel transcript prompt system)
            w [])
        = meetingTranscript (store w) @ extensionSeparator"
    "finalArticle
          (streamingAfter (GenerateFinalArticleStream topic' research transcript prompt system)
            w []) = []"
    by (simp_all add: streamingAfter_def beginCall_def setter_defs)
  have ok: "fst (callApi request e w)"
    by (simp add: run)
  have calls: "streamingAfter request w (fragments r)
        = onChunkOf request (js ''C'') (onChunkOf request (js ''B'') (onChunkOf request (js ''A'')
            (setPreparingStep (\<lambda>_. None) (streamingAfter request w []))))"
    by (simp add: streamingAfter_def assms(3))
  have final: "store (snd (callApi request e w))
        = finallyCall (stepOfCall request)
            (onCompleteOf request (case initialCitations r of None \<Rightarrow> [] | Some cs \<Rightarrow> cs)
              (streamingAfter request w (fragments r)))"
    by (simp add: run)
  have "targetBuffer request (store (snd (callApi request e w)))
        = targetBuffer request (streamingAfter request w (fragments r))"
    by (simp only: final targetBuffer_complete_finally)
  also have "\<dots> = targetBuffer request (streamingAfter request w []) @ concat (fragments r)"
    by (rule streamingAfter_buffer [OF assms(1)])
  also have "concat (fragments r) = js ''ABC''"
    by (simp add: assms(3) js_def)
  finally have buffer: "targetBuffer request (store (snd (callApi request e w)))
        = targetBuffer request (streamingAfter request w []) @ js ''ABC''" .
  have before: "preparingStep (streamingAfter request w []) = Some (stepOfCall request)"
    by (simp add: streamingAfter_preparing [OF assms(1)])
  have after: "preparingStep (streamingAfter request w [js ''A'']) = None"
    by (simp add: streamingAfter_preparing [OF assms(1)])
  have first: "targetBuffer request (streamingAfter request w [js ''A''])
        = targetBuffer request (streamingAfter request w []) @ js ''A''"
    by (simp add: streamingAfter_buffer [OF assms(1), of w "[js ''A'']"])
  have cleared: "preparingStep (store (snd (callApi request e w))) = None"
    by (simp only: final finallyCall_flags)
  from ok calls final buffer before after first cleared seeded show ?thesis
    by simp
qed

theorem streaming_ABC_witness:
  "isStreamingCall researchRequest \<and> streamApi abcEnv = Resolved abcStream
   \<and> fragments abcStream = [js ''A'', js ''B'', js ''C''] \<and> ending abcStream = Exhausted
   \<and> targetBuffer researchRequest (streamingAfter researchRequest populatedWorld []) = []
   \<and> researchData (store (snd (callApi researchRequest abcEnv populatedWorld))) = js ''ABC''"
proof -
  have h1: "isStreamingCall researchRequest"
    by (simp add: researchRequest_def)
  have h2: "streamApi abcEnv = Resolved abcStream"
    by (simp add: abcEnv_def)
  have h3: "fragments abcStream = [js ''A'', js ''B'', js ''C'']"
    by (simp add: abcStream_def)
  have h4: "ending abcStream = Exhausted"
    by (simp add: abcStream_def)
  have empty: "targetBuffer researchRequest (streamingAfter researchRequest populatedWorld []) = []"
    by (simp add: researchRequest_def streamingAfter_def setter_defs)
  from streaming_ABC [OF h1 h2 h3 h4, of populatedWorld] empty
  have "targetBuffer researchRequest (store (snd (callApi researchRequest abcEnv populatedWorld)))
          = js ''ABC''"
    by blast
  then have "researchData (store (snd (callApi researchRequest abcEnv populatedWorld))) = js ''ABC''"
    by (simp add: researchRequest_def)
  with h1 h2 h3 h4 empty show ?thesis by simp
qed

text \<open>
  C6, amended. When the stream of a streaming call throws after some fragments, the store is
  the one left by the last fragment except for three fields: \<open>loading\<close> of the step is
  false, the preparing marker is null and the error is set. The buffer keeps the content of
  all fragments consumed. The error is the quota message when the thrown value is an Error
  whose message contains 429 or RESOURCE_EXHAUSTED; for any other Error it is the message
  with the step number and the Error's message; for a thrown value that is not an Error it
  is the fixed unknown-error message.
\<close>

theorem streaming_failure:
  assumes "isStreamingCall request" and "streamApi e = Resolved r" and "ending r = Throws x"
  shows "\<not> fst (callApi request e w)
    \<and> store (snd (callApi request e w))
        = (streamingAfter request w (fragments r))
            \<lparr>loading := (loading (store w))(stepOfCall request \<mapsto> False),
             preparingStep := None,
             error := Some (if isRateLimitError x then quotaMessage
                            else case x of
                                   ErrorObject message \<Rightarrow>
                                     stepFailedMessage (stepOfCall request) message
                                 | OtherValue \<Rightarrow> unknownErrorMessage)\<rparr>
    \<and> targetBuffer request (store (snd (callApi request e w)))
        = targetBuffer request (streamingAfter request w []) @ concat (fragments r)
    \<and> loading (store (snd (callApi request e w))) (stepOfCall request) = Some False
    \<and> preparingStep (store (snd (callApi request e w))) = None
    \<and> error (store (snd (callApi request e w)))
        = Some (if isRateLimitError x then quotaMessage
                else case x of
                       ErrorObject message \<Rightarrow> stepFailedMessage (stepOfCall request) message
                     | OtherValue \<Rightarrow> unknownErrorMessage)"
proof -
  note run = callApi_throws [OF assms, of w]
  have failed: "\<not> fst (callApi request e w)"
    by (simp add: run)
  have loading_streaming: "loading (streamingAfter request w chunks)
      = (loading (store w))(stepOfCall request \<mapsto> True)" for chunks
    using assms(1)
    by (cases request)
       (simp_all add: streamingAfter_def consumeStream_research consumeStream_transcript
          consumeStream_article beginCall_def setter_defs)
  have final: "store (snd (callApi request e w))
        = (streamingAfter request w (fragments r))
            \<lparr>loading := (loading (store w))(stepOfCall request \<mapsto> False),
             preparingStep := None,
             error := Some (if isRateLimitError x then quotaMessage
                            else case x of
                                   ErrorObject message \<Rightarrow>
                                     stepFailedMessage (stepOfCall request) message
                                 | OtherValue \<Rightarrow> unknownErrorMessage)\<rparr>"
    by (simp add: run finallyCall_def catchCall_def setter_defs loading_streaming)
  have buffer: "targetBuffer request (store (snd (callApi request e w)))
        = targetBuffer request (streamingAfter request w []) @ concat (fragments r)"
    by (simp add: run targetBuffer_catch_finally
        streamingAfter_buffer [OF assms(1), of w "fragments r"])
  have flags: "loading (store (snd (callApi request e w))) (stepOfCall request) = Some False"
    "preparingStep (store (snd (callApi request e w))) = None"
    "error (store (snd (callApi request e w)))
        = Some (if isRateLimitError x then quotaMessage
                else case x of
                       ErrorObject message \<Rightarrow> stepFailedMessage (stepOfCall request) message
                     | OtherValue \<Rightarrow> unknownErrorMessage)"
    by (simp_all add: final)
  from failed final buffer flags show ?thesis
    by simp
qed

theorem streaming_failure_witness:
  "isStreamingCall researchRequest
   \<and> streamApi (brokenEnv (ErrorObject (js ''HTTP 429''))) 
       = Resolved (brokenStream (ErrorObject (js ''HTTP 429'')))
   \<and> ending (brokenStream (ErrorObject (js ''HTTP 429''))) = Throws (ErrorObject (js ''HTTP 429''))
   \<and> researchData (store (snd (callApi researchRequest
         (brokenEnv (ErrorObject (js ''HTTP 429''))) populatedWorld))) = js ''AB''
   \<and> loading (store (snd (callApi researchRequest
         (brokenEnv (ErrorObject (js ''HTTP 429''))) populatedWorld))) 2 = Some False
   \<and> preparingStep (store (snd (callApi researchRequest
         (brokenEnv (ErrorObject (js ''HTTP 429''))) populatedWorld))) = None
   \<and> error (store (snd (callApi researchRequest
         (brokenEnv (ErrorObject (js ''HTTP 429''))) populatedWorld))) = Some quotaMessage
   \<and> streamApi (brokenEnv (ErrorObject (js ''boom''))) = Resolved (brokenStream (ErrorObject (js ''boom'')))
   \<and> ending (brokenStream (ErrorObject (js ''boom''))) = Throws (ErrorObject (js ''boom''))
   \<and> error (store (snd (callApi researchRequest
         (brokenEnv (ErrorObject (js ''boom''))) populatedWorld)))
       = Some ([0x6B65, 0x9A5F, 0x20] @ js ''2'' @ [0x20, 0x5931, 0x6557, 0x3A, 0x20] @ js ''boom'')"
proof -
  let ?x = "ErrorObject (js ''HTTP 429'')"
  let ?y = "ErrorObject (js ''boom'')"
  have h1: "isStreamingCall researchRequest"
    by (simp add: researchRequest_def)
  have h2: "streamApi (brokenEnv x) = Resolved (brokenStream x)" for x
    by (simp add: brokenEnv_def)
  have h3: "ending (brokenStream x) = Throws x" for x
    by (simp add: brokenStream_def)
  have quota: "isRateLimitError ?x"
    by (simp add: isRateLimitError_def js_def)
  have plain: "\<not> isRateLimitError ?y"
    by (simp add: isRateLimitError_def js_def)
  have chunks: "fragments (brokenStream x) = [js ''A'', js ''B'']" for x
    by (simp add: brokenStream_def)
  have seeded: "researchData (streamingAfter researchRequest populatedWorld []) = []"
    by (simp add: researchRequest_def streamingAfter_def setter_defs)
  have step: "stepOfCall researchRequest = 2"
    by (simp add: researchRequest_def)
  have buffer: "targetBuffer researchRequest s = researchData s" for s
    by (simp add: researchRequest_def)
  let ?s = "store (snd (callApi researchRequest (brokenEnv ?x) populatedWorld))"
  let ?t = "store (snd (callApi researchRequest (brokenEnv ?y) populatedWorld))"
  from streaming_failure [OF h1 h2 h3, of ?x populatedWorld]
  have b: "targetBuffer researchRequest ?s
             = targetBuffer researchRequest (streamingAfter researchRequest populatedWorld [])
                 @ concat (fragments (brokenStream ?x))"
    and l: "loading ?s (stepOfCall researchRequest) = Some False"
    and p: "preparingStep ?s = None"
    and m: "error ?s = Some (if isRateLimitError ?x then quotaMessage
                else case ?x of
                       ErrorObject message \<Rightarrow> stepFailedMessage (stepOfCall researchRequest) message
                     | OtherValue \<Rightarrow> unknownErrorMessage)"
    by blast+
  from streaming_failure [OF h1 h2 h3, of ?y populatedWorld]
  have n: "error ?t = Some (if isRateLimitError ?y then quotaMessage
                else case ?y of
                       ErrorObject message \<Rightarrow> stepFailedMessage (stepOfCall researchRequest) message
                     | OtherValue \<Rightarrow> unknownErrorMessage)"
    by blast
  from b have "researchData ?s = js ''A'' @ js ''B''"
    by (simp add: buffer seeded chunks)
  then have kept: "researchData ?s = js ''AB''"
    by (simp add: js_def)
  from l have flag: "loading ?s 2 = Some False"
    by (simp add: step)
  from m have limited: "error ?s = Some quotaMessage"
    by (simp add: quota)
  have two: "numberToString 2 = js ''2''"
    by (simp add: numberToString_def digitsOf.simps js_def)
  from n have failed: "error ?t
       = Some ([0x6B65, 0x9A5F, 0x20] @ js ''2'' @ [0x20, 0x5931, 0x6557, 0x3A, 0x20] @ js ''boom'')"
    by (simp add: plain step stepFailedMessage_def two)
  from kept flag limited failed p h1 h2 h3 show ?thesis
    by simp
qed

text \<open>
  C6 as stated fails: when the thrown value is not an Error object the error is the fixed
  unknown-error message, which carries neither the step number nor anything of the thrown
  value. The fragments consumed before are kept all the same.
\<close>

theorem streaming_failure_counterexample:
  "error (store (snd (callApi researchRequest (brokenEnv OtherValue) populatedWorld)))
     = Some unknownErrorMessage
   \<and> \<not> includes_js unknownErrorMessage (numberToString 2)
   \<and> unknownErrorMessage \<noteq> quotaMessage
   \<and> researchData (store (snd (callApi researchRequest (brokenEnv OtherValue) populatedWorld)))
     = js ''AB''"
proof -
  let ?r = "brokenStream OtherValue"
  have h1: "isStreamingCall researchRequest"
    by (simp add: researchRequest_def)
  have h2: "streamApi (brokenEnv OtherValue) = Resolved ?r"
    by (simp add: brokenEnv_def)
  have h3: "ending ?r = Throws OtherValue"
    by (simp add: brokenStream_def)
  have chunks: "fragments ?r = [js ''A'', js ''B'']"
    by (simp add: brokenStream_def)
  note run = callApi_throws [OF h1 h2 h3, of populatedWorld]
  have message: "error (store (snd (callApi researchRequest (brokenEnv OtherValue) populatedWorld)))
     = Some unknownErrorMessage"
    by (simp add: run finallyCall_def catchCall_def isRateLimitError_def setter_defs)
  have nostep: "\<not> includes_js unknownErrorMessage (numberToString 2)"
    by (simp add: unknownErrorMessage_def numberToString_def digitsOf.simps)
  have distinct: "unknownErrorMessage \<noteq> quotaMessage"
    by (simp add: unknownErrorMessage_def quotaMessage_def)
  have "store (snd (callApi researchRequest (brokenEnv OtherValue) populatedWorld))
      = finallyCall (stepOfCall researchRequest) (catchCall (stepOfCall researchRequest) OtherValue
          (streamingAfter researchRequest populatedWorld (fragments ?r)))"
    by (simp add: run)
  then have "targetBuffer researchRequest
               (store (snd (callApi researchRequest (brokenEnv OtherValue) populatedWorld)))
      = targetBuffer researchRequest
          (streamingAfter researchRequest populatedWorld (fragments ?r))"
    by (simp only: targetBuffer_catch_finally)
  also have "\<dots> = targetBuffer researchRequest (streamingAfter researchRequest populatedWorld [])
                     @ concat (fragments ?r)"
    by (rule streamingAfter_buffer [OF h1])
  also have "\<dots> = js ''AB''"
    by (simp add: chunks) (simp add: researchRequest_def streamingAfter_def setter_defs js_def)
  finally have kept:
    "researchData (store (snd (callApi researchRequest (brokenEnv OtherValue) populatedWorld)))
       = js ''AB''"
    by (simp add: researchRequest_def)
  from message nostep distinct kept show ?thesis
    by simp
qed

section \<open>Verification: citations of a research stream\<close>

lemma pushNewCitations_uris:
  "uri ` set (pushNewCitations merged cs) = uri ` set merged \<union> uri ` set cs"
  using firstByUri_uris [of "set (map uri merged)" cs]
  by (auto simp: pushNewCitations_firstByUri image_Un)

lemma streamGenerator_uris:
  "uri ` set (snd (streamGenerator response collected))
     = uri ` set collected \<union> (\<Union>chunk \<in> set response. uri ` set (extractCitations chunk))"
proof (induction response arbitrary: collected)
  case Nil
  show ?case by simp
next
  case (Cons chunk rest)
  have "snd (streamGenerator (chunk # rest) collected)
          = snd (streamGenerator rest (pushNewCitations collected (extractCitations chunk)))"
    by (simp split: prod.splits option.splits)
  then show ?case
    by (simp add: Cons.IH pushNewCitations_uris Un_assoc)
qed

lemma extract_one: "extractCitations chunkOne = [citeOne]"
  by (simp add: extractCitations_def chunkOne_def citeOne_def js_def)

lemma extract_two: "extractCitations chunkTwo = [citeTwo]"
  by (simp add: extractCitations_def chunkTwo_def citeTwo_def js_def)

lemma generator_sample:
  "streamGenerator [chunkOne, chunkTwo] [] = ([js ''A'', js ''B''], [citeOne, citeTwo])"
  by (simp add: extract_one extract_two)
     (simp add: chunkOne_def chunkTwo_def citeOne_def citeTwo_def js_def)

text \<open>
  C4, amended. During a streaming research call (initial or supplemental) the citations that
  the chunks carry are collected in the request's own array and reach the citation set of
  the store only when the stream is exhausted, in the \<open>onComplete\<close> write: the initial
  research replaces the set by the content of the array, the supplemental research merges
  it into the set by uri. Consuming fragments never changes the citation set (the initial
  research has emptied it in \<open>onStart\<close>), and when the stream throws, nothing of the array
  is written. For the supplemental research the array holds, at the end, every uri that the
  chunks of the response carry.
\<close>

theorem research_citations:
  assumes "streamApi e = Resolved r"
  shows "citations (streamingAfter (ConductResearchStream t p) w chunks) = []
    \<and> citations (streamingAfter (SupplementalResearchStream q d p') w chunks)
        = citations (store w)
    \<and> (ending r = Exhausted \<longrightarrow>
          citations (store (snd (callApi (ConductResearchStream t p) e w)))
            = (case initialCitations r of None \<Rightarrow> [] | Some cs \<Rightarrow> cs)
          \<and> citations (store (snd (callApi (SupplementalResearchStream q d p') e w)))
            = pushNewCitations (citations (store w))
                (case initialCitations r of None \<Rightarrow> [] | Some cs \<Rightarrow> cs))
    \<and> (\<forall>x. ending r = Throws x \<longrightarrow>
          citations (store (snd (callApi (ConductResearchStream t p) e w))) = []
          \<and> citations (store (snd (callApi (SupplementalResearchStream q d p') e w)))
            = citations (store w))
    \<and> fragments (supplementalResearchStream fullPrompt response fin)
        = fst (streamGenerator response [])
    \<and> initialCitations (supplementalResearchStream fullPrompt response fin)
        = Some (snd (streamGenerator response []))
    \<and> uri ` set (snd (streamGenerator response []))
        = (\<Union>chunk \<in> set response. uri ` set (extractCitations chunk))"
proof -
  have during: "citations (streamingAfter (ConductResearchStream t p) w chunks) = []"
    "citations (streamingAfter (SupplementalResearchStream q d p') w chunks) = citations (store w)"
    for chunks
    by (simp_all add: streamingAfter_citations setter_defs)
  have completed: "citations (store (snd (callApi (ConductResearchStream t p) e w)))
            = (case initialCitations r of None \<Rightarrow> [] | Some cs \<Rightarrow> cs)
          \<and> citations (store (snd (callApi (SupplementalResearchStream q d p') e w)))
            = pushNewCitations (citations (store w))
                (case initialCitations r of None \<Rightarrow> [] | Some cs \<Rightarrow> cs)"
    if ex: "ending r = Exhausted"
    by (simp add: callApi_exhausted [OF _ assms ex] finallyCall_def setter_defs during)
  have failed: "citations (store (snd (callApi (ConductResearchStream t p) e w))) = []
          \<and> citations (store (snd (callApi (SupplementalResearchStream q d p') e w)))
            = citations (store w)"
    if th: "ending r = Throws x" for x
    by (simp add: callApi_throws [OF _ assms th] finallyCall_def catchCall_def setter_defs
        during)
  have service: "fragments (supplementalResearchStream fullPrompt response fin)
        = fst (streamGenerator response [])"
    "initialCitations (supplementalResearchStream fullPrompt response fin)
        = Some (snd (streamGenerator response []))"
    by (simp_all add: supplementalResearchStream_def)
  have all: "uri ` set (snd (streamGenerator response []))
        = (\<Union>chunk \<in> set response. uri ` set (extractCitations chunk))"
    by (simp add: streamGenerator_uris)
  from during completed failed service all show ?thesis by blast
qed

theorem research_citations_witness:
  "streamApi (groundedEnv Exhausted)
     = Resolved (supplementalResearchStream (js ''p2a'') [chunkOne, chunkTwo] Exhausted)
   \<and> ending (supplementalResearchStream (js ''p2a'') [chunkOne, chunkTwo] Exhausted) = Exhausted
   \<and> citations (store (snd (callApi supplementalRequest (groundedEnv Exhausted) populatedWorld)))
       = [\<lparr>title = js ''t'', uri = js ''u''\<rparr>, citeOne, citeTwo]
   \<and> streamApi (groundedEnv (Throws OtherValue))
       = Resolved (supplementalResearchStream (js ''p2a'') [chunkOne, chunkTwo] (Throws OtherValue))
   \<and> ending (supplementalResearchStream (js ''p2a'') [chunkOne, chunkTwo] (Throws OtherValue))
       = Throws OtherValue
   \<and> citations (store (snd (callApi supplementalRequest (groundedEnv (Throws OtherValue))
         populatedWorld)))
       = [\<lparr>title = js ''t'', uri = js ''u''\<rparr>]"
proof -
  let ?good = "supplementalResearchStream (js ''p2a'') [chunkOne, chunkTwo] Exhausted"
  let ?bad = "supplementalResearchStream (js ''p2a'') [chunkOne, chunkTwo] (Throws OtherValue)"
  have h1: "streamApi (groundedEnv fin)
              = Resolved (supplementalResearchStream (js ''p2a'') [chunkOne, chunkTwo] fin)" for fin
    by (simp add: groundedEnv_def)
  have e1: "ending ?good = Exhausted" and e2: "ending ?bad = Throws OtherValue"
    by (simp_all add: supplementalResearchStream_def)
  have collected: "initialCitations ?good = Some [citeOne, citeTwo]"
    by (simp only: supplementalResearchStream_def generator_sample snd_conv
        stream_response.simps)
  have before: "citations (store populatedWorld) = [\<lparr>title = js ''t'', uri = js ''u''\<rparr>]"
    by (simp add: populatedWorld_def populated_def)
  have merged: "pushNewCitations [\<lparr>title = js ''t'', uri = js ''u''\<rparr>] [citeOne, citeTwo]
      = [\<lparr>title = js ''t'', uri = js ''u''\<rparr>, citeOne, citeTwo]"
    by (simp add: citeOne_def citeTwo_def js_def)
  from research_citations
         [OF h1 [of Exhausted], where w = populatedWorld and q = "js ''more''"
            and d = "js ''facts''" and p' = "js ''p2a''"] e1
  have "citations (store (snd (callApi (SupplementalResearchStream (js ''more'') (js ''facts'')
            (js ''p2a'')) (groundedEnv Exhausted) populatedWorld)))
          = pushNewCitations (citations (store populatedWorld))
              (case initialCitations ?good of None \<Rightarrow> [] | Some cs \<Rightarrow> cs)"
    by blast
  then have a: "citations (store (snd (callApi supplementalRequest (groundedEnv Exhausted)
          populatedWorld))) = [\<lparr>title = js ''t'', uri = js ''u''\<rparr>, citeOne, citeTwo]"
    by (simp only: supplementalRequest_def collected before option.simps merged)
  from research_citations
         [OF h1 [of "Throws OtherValue"], where w = populatedWorld and q = "js ''more''"
            and d = "js ''facts''" and p' = "js ''p2a''"] e2
  have "citations (store (snd (callApi (SupplementalResearchStream (js ''more'') (js ''facts'')
            (js ''p2a'')) (groundedEnv (Throws OtherValue)) populatedWorld)))
          = citations (store populatedWorld)"
    by blast
  then have b: "citations (store (snd (callApi supplementalRequest
          (groundedEnv (Throws OtherValue)) populatedWorld)))
            = [\<lparr>title = js ''t'', uri = js ''u''\<rparr>]"
    by (simp add: supplementalRequest_def before)
  from h1 e1 e2 a b show ?thesis by simp
qed

text \<open>
  C4 as stated fails: the first chunk of a supplemental research carries a citation and its
  fragment A has been consumed, yet the citation set of the store does not contain the
  citation; and when the stream throws later, the store never receives it.
\<close>

theorem research_citations_counterexample:
  "extractCitations chunkOne = [citeOne]
   \<and> fragments (supplementalResearchStream (js ''p2a'') [chunkOne, chunkTwo] (Throws OtherValue))
       = [js ''A'', js ''B'']
   \<and> researchData (streamingAfter supplementalRequest populatedWorld [js ''A''])
       = js ''facts'' @ supplementalHeading (js ''more'') @ js ''A''
   \<and> citeOne \<notin> set (citations (streamingAfter supplementalRequest populatedWorld [js ''A'']))
   \<and> citeOne \<notin> set (citations (store (snd (callApi supplementalRequest
         (groundedEnv (Throws OtherValue)) populatedWorld))))"
proof -
  let ?bad = "supplementalResearchStream (js ''p2a'') [chunkOne, chunkTwo] (Throws OtherValue)"
  have s: "isStreamingCall supplementalRequest"
    by (simp add: supplementalRequest_def)
  have before: "citations (store populatedWorld) = [\<lparr>title = js ''t'', uri = js ''u''\<rparr>]"
    by (simp add: populatedWorld_def populated_def)
  have other: "citeOne \<notin> set [\<lparr>title = js ''t'', uri = js ''u''\<rparr>]"
    by (simp add: citeOne_def js_def)
  have during: "citations (streamingAfter supplementalRequest populatedWorld chunks)
      = [\<lparr>title = js ''t'', uri = js ''u''\<rparr>]" for chunks
    by (simp add: streamingAfter_citations [OF s])
       (simp add: supplementalRequest_def setter_defs before)
  have appended: "researchData (streamingAfter supplementalRequest populatedWorld [js ''A''])
       = js ''facts'' @ supplementalHeading (js ''more'') @ js ''A''"
    by (simp add: supplementalRequest_def streamingAfter_def appendResearchChunk_def
        beginCall_def setter_defs populatedWorld_def populated_def)
  have yields: "fragments ?bad = [js ''A'', js ''B'']"
    by (simp only: supplementalResearchStream_def generator_sample fst_conv
        stream_response.simps)
  have h: "streamApi (groundedEnv (Throws OtherValue)) = Resolved ?bad"
    by (simp add: groundedEnv_def)
  have th: "ending ?bad = Throws OtherValue"
    by (simp add: supplementalResearchStream_def)
  have failed: "citations (store (snd (callApi supplementalRequest
         (groundedEnv (Throws OtherValue)) populatedWorld)))
      = [\<lparr>title = js ''t'', uri = js ''u''\<rparr>]"
    by (simp add: callApi_throws [OF s h th] finallyCall_def catchCall_def setter_defs during)
  from extract_one yields appended other show ?thesis
    by (simp add: during failed)
qed

section \<open>Verification: persistence\<close>

text \<open>
  C8, amended. The persisted record, stored under the fixed name of the application,
  consists of exactly ten entries: the current step pointer, the topic and its confirmation
  flag, the research data, the supplemental query, the citations, the characters, the
  meeting transcript, the final article and the prompts. None of the excluded keys (the
  loading flags, the preparing marker, the error and every setter or action) is in it.
\<close>

theorem partialize_entries:
  "partialize s =
     [(''step'', NumberValue (step s)), (''topic'', StringValue (topic s)),
      (''isTopicConfirmed'', BooleanValue (isTopicConfirmed s)),
      (''researchData'', StringValue (researchData s)),
      (''supplementalResearchQuery'', StringValue (supplementalResearchQuery s)),
      (''citations'', CitationsValue (citations s)),
      (''characters'', CharactersValue (characters s)),
      (''meetingTranscript'', StringValue (meetingTranscript s)),
      (''finalArticle'', StringValue (finalArticle s)),
      (''prompts'', PromptsValue (prompts s))]
   \<and> set notPersisted \<inter> fst ` set (partialize s) = {}
   \<and> storageName = ''long-form-ai-generator-storage''"
proof -
  have entries: "partialize s =
     [(''step'', NumberValue (step s)), (''topic'', StringValue (topic s)),
      (''isTopicConfirmed'', BooleanValue (isTopicConfirmed s)),
      (''researchData'', StringValue (researchData s)),
      (''supplementalResearchQuery'', StringValue (supplementalResearchQuery s)),
      (''citations'', CitationsValue (citations s)),
      (''characters'', CharactersValue (characters s)),
      (''meetingTranscript'', StringValue (meetingTranscript s)),
      (''finalArticle'', StringValue (finalArticle s)),
      (''prompts'', PromptsValue (prompts s))]"
    by (simp add: partialize_def storeEntries_def notPersisted_def)
  have "set notPersisted \<inter> fst ` set (partialize s) = {}"
    by (auto simp: partialize_def)
  with entries show ?thesis
    by (simp add: storageName_def)
qed

text \<open>
  C8 as stated fails: besides the five step entities, the confirmation flag, the citations
  and the prompts, the persisted record also holds the current step pointer and the
  supplemental query field.
\<close>

theorem partialize_counterexample:
  "(''step'', NumberValue 5) \<in> set (partialize populated)
   \<and> (''supplementalResearchQuery'', StringValue (js ''more'')) \<in> set (partialize populated)"
  by (simp add: partialize_def storeEntries_def notPersisted_def populated_def)

section \<open>Verification: rerun gating\<close>

text \<open>
  C5. When the step of a rerun handler is logically completed, triggering the handler only
  opens the confirmation: the store is unchanged and no request is dispatched, for the
  generic handler and for each of the five handlers built from it. Cancelling closes the
  confirmation and changes nothing else. Only confirming runs \<open>resetStepsFrom\<close> for that
  step and then the call, which dispatches exactly its request.
\<close>

theorem rerun_needs_confirmation:
  assumes "isStepLogicallyCompleted stepToRerun (store w)"
  shows "store (createRerunHandler stepToRerun actionFn e w) = store w
    \<and> requests (createRerunHandler stepToRerun actionFn e w) = requests w
    \<and> confirmation (createRerunHandler stepToRerun actionFn e w)
        = Some (RerunConfirm stepToRerun actionFn)
    \<and> modalCancel (createRerunHandler stepToRerun actionFn e w) = w\<lparr>confirmation := None\<rparr>
    \<and> modalConfirm e' (createRerunHandler stepToRerun actionFn e w)
        = (snd (callApi actionFn e' (w\<lparr>store := resetStepsFrom stepToRerun (store w)\<rparr>)))
            \<lparr>confirmation := None\<rparr>
    \<and> requests (modalConfirm e' (createRerunHandler stepToRerun actionFn e w))
        = requests w @ [actionFn]
    \<and> (stepToRerun = 1 \<longrightarrow> store (handleGenerateTopicAI e w) = store w
          \<and> requests (handleGenerateTopicAI e w) = requests w)
    \<and> (stepToRerun = 2 \<longrightarrow> store (handleConductResearch e w) = store w
          \<and> requests (handleConductResearch e w) = requests w)
    \<and> (stepToRerun = 3 \<longrightarrow> store (handleGenerateGroup e w) = store w
          \<and> requests (handleGenerateGroup e w) = requests w)
    \<and> (stepToRerun = 4 \<longrightarrow> store (handleStartDiscussion e w) = store w
          \<and> requests (handleStartDiscussion e w) = requests w)
    \<and> (stepToRerun = 5 \<longrightarrow> store (handleGenerateArticle e w) = store w
          \<and> requests (handleGenerateArticle e w) = requests w)"
proof -
  have asked: "createRerunHandler stepToRerun actionFn e w
      = w\<lparr>confirmation := Some (RerunConfirm stepToRerun actionFn)\<rparr>" for actionFn
    using assms by (simp add: createRerunHandler_def)
  have confirmed: "modalConfirm e' (createRerunHandler stepToRerun actionFn e w)
        = (snd (callApi actionFn e' (w\<lparr>store := resetStepsFrom stepToRerun (store w)\<rparr>)))
            \<lparr>confirmation := None\<rparr>"
  proof -
    let ?asked = "w\<lparr>confirmation := Some (RerunConfirm stepToRerun actionFn),
                    store := resetStepsFrom stepToRerun (store w)\<rparr>"
    have "modalConfirm e' (createRerunHandler stepToRerun actionFn e w)
        = (snd (callApi actionFn e' ?asked))\<lparr>confirmation := None\<rparr>"
      by (simp add: asked modalConfirm_def)
    also have "\<dots> = (snd (callApi actionFn e'
            (w\<lparr>store := resetStepsFrom stepToRerun (store w)\<rparr>)))\<lparr>confirmation := None\<rparr>"
      using store_callApi_cong
              [of ?asked "w\<lparr>store := resetStepsFrom stepToRerun (store w)\<rparr>" actionFn e']
      by (intro world.equality) (simp_all add: requests_callApi)
    finally show ?thesis .
  qed
  have sent: "requests (modalConfirm e' (createRerunHandler stepToRerun actionFn e w))
        = requests w @ [actionFn]"
    by (simp add: confirmed requests_callApi)
  have handlers:
    "stepToRerun = 1 \<longrightarrow> store (handleGenerateTopicAI e w) = store w
          \<and> requests (handleGenerateTopicAI e w) = requests w"
    "stepToRerun = 2 \<longrightarrow> store (handleConductResearch e w) = store w
          \<and> requests (handleConductResearch e w) = requests w"
    "stepToRerun = 3 \<longrightarrow> store (handleGenerateGroup e w) = store w
          \<and> requests (handleGenerateGroup e w) = requests w"
    "stepToRerun = 4 \<longrightarrow> store (handleStartDiscussion e w) = store w
          \<and> requests (handleStartDiscussion e w) = requests w"
    "stepToRerun = 5 \<longrightarrow> store (handleGenerateArticle e w) = store w
          \<and> requests (handleGenerateArticle e w) = requests w"
    using asked
    by (auto simp: handleGenerateTopicAI_def handleConductResearch_def handleGenerateGroup_def
        handleStartDiscussion_def handleGenerateArticle_def)
  from confirmed sent handlers show ?thesis
    by (simp add: asked modalCancel_def)
qed

lemma populated_article_done: "isStepLogicallyCompleted 5 (store populatedWorld)"
  by (simp add: isStepLogicallyCompleted_def populatedWorld_def populated_def trim_def
      isWhiteSpace_def js_def)

theorem rerun_needs_confirmation_witness:
  "isStepLogicallyCompleted 5 (store populatedWorld)
   \<and> store (handleGenerateArticle abcEnv populatedWorld) = store populatedWorld
   \<and> requests (handleGenerateArticle abcEnv populatedWorld) = []
   \<and> modalCancel (createRerunHandler 5 articleRequest abcEnv populatedWorld) = populatedWorld
   \<and> requests (modalConfirm abcEnv (createRerunHandler 5 articleRequest abcEnv populatedWorld))
       = [articleRequest]"
proof -
  note h = populated_article_done
  from rerun_needs_confirmation [OF h, of articleRequest abcEnv abcEnv]
  have a: "store (handleGenerateArticle abcEnv populatedWorld) = store populatedWorld"
    and b: "requests (handleGenerateArticle abcEnv populatedWorld) = requests populatedWorld"
    and c: "modalCancel (createRerunHandler 5 articleRequest abcEnv populatedWorld)
              = populatedWorld\<lparr>confirmation := None\<rparr>"
    and d: "requests (modalConfirm abcEnv
                (createRerunHandler 5 articleRequest abcEnv populatedWorld))
              = requests populatedWorld @ [articleRequest]"
    by blast+
  from h a b c d show ?thesis
    by (simp add: populatedWorld_def)
qed

text \<open>
  C9, amended. The extend button is rendered only when the transcript is not blank, so
  with a blank transcript a click reaches nothing, and a click that passes the gate
  captures a transcript that is not blank. The click only opens the confirmation: the store
  is unchanged and no request is dispatched. The controller checks nothing more after that:
  when the user confirms, \<open>resetStepsFrom 5\<close> runs and the request captured at the click is
  dispatched without a new look at the transcript of the store.
\<close>

theorem extend_gating:
  "(trim (meetingTranscript (store w)) = []
      \<longrightarrow> \<not> extendButtonRendered (store w) \<and> clickExtendDiscussion w = w)
   \<and> (extendButtonRendered (store w) \<and> \<not> extendButtonDisabled (store w)
      \<longrightarrow> trim (meetingTranscript (store w)) \<noteq> []
          \<and> store (clickExtendDiscussion w) = store w
          \<and> requests (clickExtendDiscussion w) = requests w
          \<and> confirmation (clickExtendDiscussion w)
              = Some (ExtendConfirm (ExtendDiscussionStream (topic (store w))
                  (researchData (store w)) (characters (store w)) (meetingTranscript (store w))
                  (step4Extend (prompts (store w))) (step4System (prompts (store w))))))
   \<and> (\<not> (extendButtonRendered (store w) \<and> \<not> extendButtonDisabled (store w))
      \<longrightarrow> clickExtendDiscussion w = w)
   \<and> store (handleExtendDiscussion w) = store w
   \<and> requests (handleExtendDiscussion w) = requests w
   \<and> requests (modalCancel w') = requests w'
   \<and> (confirmation w' = Some (ExtendConfirm request)
      \<longrightarrow> requests (modalConfirm e w') = requests w' @ [request]
          \<and> store (modalConfirm e w')
              = store (snd (callApi request e (w'\<lparr>store := resetStepsFrom 5 (store w')\<rparr>))))"
proof -
  have hidden: "trim (meetingTranscript (store w)) = []
      \<longrightarrow> \<not> extendButtonRendered (store w) \<and> clickExtendDiscussion w = w"
    by (simp add: clickExtendDiscussion_def extendButtonRendered_def isStepLogicallyCompleted_def)
  have offered: "extendButtonRendered (store w) \<and> \<not> extendButtonDisabled (store w)
      \<longrightarrow> trim (meetingTranscript (store w)) \<noteq> []
          \<and> store (clickExtendDiscussion w) = store w
          \<and> requests (clickExtendDiscussion w) = requests w
          \<and> confirmation (clickExtendDiscussion w)
              = Some (ExtendConfirm (ExtendDiscussionStream (topic (store w))
                  (researchData (store w)) (characters (store w)) (meetingTranscript (store w))
                  (step4Extend (prompts (store w))) (step4System (prompts (store w)))))"
    by (simp add: clickExtendDiscussion_def handleExtendDiscussion_def extendButtonRendered_def
        isStepLogicallyCompleted_def)
  have refused: "\<not> (extendButtonRendered (store w) \<and> \<not> extendButtonDisabled (store w))
      \<longrightarrow> clickExtendDiscussion w = w"
    by (simp add: clickExtendDiscussion_def)
  have opened: "store (handleExtendDiscussion w) = store w"
    "requests (handleExtendDiscussion w) = requests w"
    by (simp_all add: handleExtendDiscussion_def)
  have cancelled: "requests (modalCancel w') = requests w'"
    by (simp add: modalCancel_def)
  have confirmed: "confirmation w' = Some (ExtendConfirm request)
      \<longrightarrow> requests (modalConfirm e w') = requests w' @ [request]
          \<and> store (modalConfirm e w')
              = store (snd (callApi request e (w'\<lparr>store := resetStepsFrom 5 (store w')\<rparr>)))"
    by (simp add: modalConfirm_def requests_callApi)
  from hidden offered refused opened cancelled confirmed show ?thesis
    by blast
qed

lemma populated_extend_offered:
  "extendButtonRendered (store populatedWorld) \<and> \<not> extendButtonDisabled (store populatedWorld)"
  by (simp add: extendButtonRendered_def extendButtonDisabled_def isStepLogicallyCompleted_def
      stepLocked_def populatedWorld_def populated_def trim_def isWhiteSpace_def js_def)

lemma populated_extend_clicked:
  "clickExtendDiscussion populatedWorld
     = populatedWorld\<lparr>confirmation := Some (ExtendConfirm extendRequest)\<rparr>"
  using populated_extend_offered
  by (simp add: clickExtendDiscussion_def handleExtendDiscussion_def extendRequest_def
      populatedWorld_def populated_def)

theorem extend_gating_witness:
  "trim (meetingTranscript (store freshWorld)) = []
   \<and> \<not> extendButtonRendered (store freshWorld)
   \<and> clickExtendDiscussion freshWorld = freshWorld
   \<and> extendButtonRendered (store populatedWorld)
   \<and> \<not> extendButtonDisabled (store populatedWorld)
   \<and> trim (meetingTranscript (store populatedWorld)) \<noteq> []
   \<and> store (clickExtendDiscussion populatedWorld) = store populatedWorld
   \<and> requests (clickExtendDiscussion populatedWorld) = []
   \<and> confirmation (clickExtendDiscussion populatedWorld) = Some (ExtendConfirm extendRequest)
   \<and> requests (modalConfirm abcEnv (clickExtendDiscussion populatedWorld)) = [extendRequest]"
proof -
  have blank: "trim (meetingTranscript (store freshWorld)) = []"
    by (simp add: freshWorld_def freshState_def trim_def)
  from extend_gating [of freshWorld] blank
  have closed: "\<not> extendButtonRendered (store freshWorld)"
    "clickExtendDiscussion freshWorld = freshWorld"
    by blast+
  note gate = populated_extend_offered
  have pending: "confirmation (clickExtendDiscussion populatedWorld)
      = Some (ExtendConfirm extendRequest)"
    by (simp add: populated_extend_clicked)
  from extend_gating [of populatedWorld] gate
  have kept: "trim (meetingTranscript (store populatedWorld)) \<noteq> []"
    "store (clickExtendDiscussion populatedWorld) = store populatedWorld"
    "requests (clickExtendDiscussion populatedWorld) = requests populatedWorld"
    by blast+
  from extend_gating
         [where w' = "clickExtendDiscussion populatedWorld" and request = extendRequest
            and e = abcEnv] pending
  have "requests (modalConfirm abcEnv (clickExtendDiscussion populatedWorld))
      = requests (clickExtendDiscussion populatedWorld) @ [extendRequest]"
    by blast
  moreover have none: "requests populatedWorld = []"
    by (simp add: populatedWorld_def)
  ultimately have sent: "requests (modalConfirm abcEnv (clickExtendDiscussion populatedWorld))
      = [extendRequest]"
    by (simp add: kept)
  from blank closed gate kept pending sent none show ?thesis
    by simp
qed

text \<open>
  C9 as stated fails. On the populated state the extend button is offered and a click
  opens the confirmation. While it is pending the user resets all progress, which empties
  the transcript of the store but leaves the confirmation open. Confirming then dispatches
  the extend request although the transcript is empty at that moment: nothing is checked
  before the dispatch.
\<close>

theorem extend_gating_counterexample:
  "extendButtonRendered (store populatedWorld)
   \<and> \<not> extendButtonDisabled (store populatedWorld)
   \<and> meetingTranscript
        (store (perform abcEnv ResetAll (clickExtendDiscussion populatedWorld))) = []
   \<and> requests (perform abcEnv ResetAll (clickExtendDiscussion populatedWorld)) = []
   \<and> requests (perform abcEnv ModalConfirm
        (perform abcEnv ResetAll (clickExtendDiscussion populatedWorld))) = [extendRequest]"
proof -
  let ?reset = "perform abcEnv ResetAll (clickExtendDiscussion populatedWorld)"
  have emptied: "meetingTranscript (store ?reset) = []"
    by (simp add: resetAll_def)
  have none: "requests populatedWorld = []"
    by (simp add: populatedWorld_def)
  have quiet: "requests ?reset = []"
    by (simp add: populated_extend_clicked none)
  have pending: "confirmation ?reset = Some (ExtendConfirm extendRequest)"
    by (simp add: populated_extend_clicked)
  have "requests (perform abcEnv ModalConfirm ?reset) = requests ?reset @ [extendRequest]"
    using pending by (simp add: modalConfirm_def requests_callApi)
  with quiet have sent: "requests (perform abcEnv ModalConfirm ?reset) = [extendRequest]"
    by simp
  from populated_extend_offered emptied quiet sent show ?thesis
    by simp
qed

section \<open>Verification: step advance\<close>

lemma step_createRerunHandler:
  "step (store (createRerunHandler stepToRerun actionFn e w)) = step (store w)"
  by (simp add: createRerunHandler_def step_callApi)

lemma step_performSupplemental:
  "step (store (performSupplementalResearchAction request hadConfirmation e w)) = step (store w)"
proof -
  have "step (store (snd (callApi request e (w\<lparr>store := resetStepsFrom 3 (store w)\<rparr>))))
          = step (store w)"
    by (simp add: step_callApi resetStepsFrom_step)
  then show ?thesis
    by (simp add: performSupplementalResearchAction_def case_prod_beta Let_def setter_defs)
qed

lemma step_onConfirm: "step (store (onConfirm p e w)) = step (store w)"
proof (cases p)
  case (RerunConfirm n actionFn)
  then show ?thesis by (simp add: step_callApi resetStepsFrom_step)
next
  case ResetTopicConfirm
  then show ?thesis by (simp add: resetStepsFrom_step)
next
  case (SupplementalConfirm request hadConfirmation)
  then show ?thesis by (simp add: step_performSupplemental)
next
  case (DeleteCharacterConfirm i)
  then show ?thesis by (simp add: resetStepsFrom_step deleteCharacter_def)
next
  case (ExtendConfirm request)
  then show ?thesis by (simp add: step_callApi resetStepsFrom_step)
qed

lemma step_perform:
  "a \<noteq> ConfirmAndAdvance \<Longrightarrow> \<not> isNavigation a \<Longrightarrow>
   step (store (perform e a w)) = step (store w)"
proof (cases a)
  case SupplementalResearch
  then show ?thesis
    by (simp add: handleSupplementalResearch_def Let_def step_performSupplemental)
next
  case ModalConfirm
  then show ?thesis
    by (simp add: modalConfirm_def step_onConfirm split: option.splits)
qed (simp_all add: handleGenerateTopicAI_def handleConductResearch_def handleGenerateGroup_def
      handleStartDiscussion_def handleGenerateArticle_def step_createRerunHandler
      handleResetTopicConfirmation_def handleSaveCharacter_def handleDeleteCharacter_def
      handleExtendDiscussion_def modalCancel_def resetStepsFrom_step setter_defs)

text \<open>
  C7. No generation call changes the current step, whether it succeeds or fails, and the
  only action of the page that changes it, besides the navigation actions whose whole
  effect is to move between steps or start over, is the manual topic confirmation: with a
  topic that is not blank after trimming it sets the confirmation flag and the step to 2
  (from 1 in the initial state) and clears the error, all at once and nothing else; with a
  blank topic it only sets an error, leaving flag and step as they were.
\<close>

theorem no_auto_advance:
  "step (store (snd (callApi request e w))) = step (store w)
   \<and> (a \<noteq> ConfirmAndAdvance \<and> \<not> isNavigation a
        \<longrightarrow> step (store (perform e a w)) = step (store w))
   \<and> (trim (topic (store w)) \<noteq> []
        \<longrightarrow> perform e ConfirmAndAdvance w
              = w\<lparr>store := (store w)\<lparr>isTopicConfirmed := True, step := 2, error := None\<rparr>\<rparr>)
   \<and> (trim (topic (store w)) = []
        \<longrightarrow> perform e ConfirmAndAdvance w
              = w\<lparr>store := (store w)\<lparr>error := Some enterTopicMessage\<rparr>\<rparr>)"
proof -
  have generation: "step (store (snd (callApi request e w))) = step (store w)"
    by (rule step_callApi)
  have others: "a \<noteq> ConfirmAndAdvance \<and> \<not> isNavigation a
        \<longrightarrow> step (store (perform e a w)) = step (store w)"
    using step_perform [of a e w] by blast
  have advance: "trim (topic (store w)) \<noteq> []
        \<longrightarrow> perform e ConfirmAndAdvance w
              = w\<lparr>store := (store w)\<lparr>isTopicConfirmed := True, step := 2, error := None\<rparr>\<rparr>"
    by (simp add: handleConfirmAndAdvance_def setter_defs)
  have rejected: "trim (topic (store w)) = []
        \<longrightarrow> perform e ConfirmAndAdvance w
              = w\<lparr>store := (store w)\<lparr>error := Some enterTopicMessage\<rparr>\<rparr>"
    by (simp add: handleConfirmAndAdvance_def setter_defs)
  from generation others advance rejected show ?thesis
    by blast
qed

theorem no_auto_advance_witness:
  "trim (topic (store typedTopicWorld)) \<noteq> [] \<and> step (store typedTopicWorld) = 1
   \<and> step (store (perform abcEnv ConfirmAndAdvance typedTopicWorld)) = 2
   \<and> isTopicConfirmed (store (perform abcEnv ConfirmAndAdvance typedTopicWorld))
   \<and> trim (topic (store blankTopicWorld)) = []
   \<and> step (store (perform abcEnv ConfirmAndAdvance blankTopicWorld)) = 1
   \<and> \<not> isTopicConfirmed (store (perform abcEnv ConfirmAndAdvance blankTopicWorld))
   \<and> error (store (perform abcEnv ConfirmAndAdvance blankTopicWorld)) = Some enterTopicMessage
   \<and> GenerateArticle \<noteq> ConfirmAndAdvance \<and> \<not> isNavigation GenerateArticle
   \<and> step (store (perform abcEnv GenerateArticle populatedWorld)) = 5"
proof -
  have typed: "trim (topic (store typedTopicWorld)) \<noteq> []"
    by (simp add: typedTopicWorld_def trim_def isWhiteSpace_def js_def)
  have blank: "trim (topic (store blankTopicWorld)) = []"
    by (simp add: blankTopicWorld_def trim_def isWhiteSpace_def)
  have other: "GenerateArticle \<noteq> ConfirmAndAdvance \<and> \<not> isNavigation GenerateArticle"
    by simp
  from no_auto_advance [of articleRequest abcEnv typedTopicWorld GenerateArticle] typed
  have a: "perform abcEnv ConfirmAndAdvance typedTopicWorld
             = typedTopicWorld\<lparr>store := (store typedTopicWorld)
                 \<lparr>isTopicConfirmed := True, step := 2, error := None\<rparr>\<rparr>"
    by blast
  from no_auto_advance [of articleRequest abcEnv blankTopicWorld GenerateArticle] blank
  have b: "perform abcEnv ConfirmAndAdvance blankTopicWorld
             = blankTopicWorld\<lparr>store := (store blankTopicWorld)
                 \<lparr>error := Some enterTopicMessage\<rparr>\<rparr>"
    by blast
  from no_auto_advance [of articleRequest abcEnv populatedWorld GenerateArticle] other
  have c: "step (store (perform abcEnv GenerateArticle populatedWorld))
             = step (store populatedWorld)"
    by blast
  have start: "step (store typedTopicWorld) = 1" "step (store blankTopicWorld) = 1"
    "\<not> isTopicConfirmed (store blankTopicWorld)" "step (store populatedWorld) = 5"
    by (simp_all add: typedTopicWorld_def blankTopicWorld_def freshWorld_def freshState_def
        populatedWorld_def populated_def)
  from typed blank other start a b c show ?thesis
    by simp
qed

end
